theory Spec2Isabelle
  imports Complex_Main "HOL-Library.Word"
begin

unbundle bit_operations_syntax

section \<open>Conventions of the embedding\<close>

text \<open>
  The repository is a Django application. Each model class becomes a record holding the
  fields that the modelled methods read or write; a method becomes a function from the
  instance (and, where the method touches the database, the tables) to its result.

  \<^item> \<^verbatim>\<open>DecimalField\<close> values (Python \<^verbatim>\<open>Decimal\<close>) are rationals. The
    products and divisions by 100 of the source are exact on \<^verbatim>\<open>Decimal\<close> as long
    as the result has at most 28 significant digits, which is the range this model covers.
  \<^item> Python \<^verbatim>\<open>str\<close> values are HOL strings, one \<open>char\<close> per code point, so the
    model covers the code points below 256.
  \<^item> A nullable column is an \<open>option\<close>; a Python exception is the \<open>Inl\<close> branch
    of a sum.
  \<^item> Where two classes have a field of the same name, the record field carries a short
    prefix of its class (\<open>inv_status\<close>, \<open>lead_status\<close>).
\<close>

datatype py_error = TypeError | ValueError | AttributeError

text \<open>\<^verbatim>\<open>str.startswith\<close>.\<close>

definition startswith :: "string \<Rightarrow> string \<Rightarrow> bool" where
  "startswith s p = (take (length p) s = p)"

section \<open>Price list items (src/products/models.py)\<close>

record Product =
  base_price :: rat

record PriceListItem =
  product :: Product
  fixed_price :: "rat option"
  discount_percentage :: "rat option"
  min_quantity :: rat

text \<open>
  Truth value of a nullable decimal in a Python condition: \<^verbatim>\<open>None\<close> and a zero
  \<^verbatim>\<open>Decimal\<close> are both false.
\<close>

definition decimal_truthy :: "rat option \<Rightarrow> bool" where
  "decimal_truthy d = (case d of None \<Rightarrow> False | Some v \<Rightarrow> v \<noteq> 0)"

text \<open>
  \<^verbatim>\<open>
  def get_price(self, quantity=1):
      if quantity < self.min_quantity:
          return None
      if self.fixed_price:
          return self.fixed_price
      elif self.discount_percentage:
          return self.product.base_price * (1 - self.discount_percentage / 100)
      else:
          return self.product.base_price
  \<close>
  The result \<open>None\<close> is Python's \<^verbatim>\<open>None\<close>.
\<close>

definition get_price :: "PriceListItem \<Rightarrow> rat \<Rightarrow> rat option" where
  "get_price self quantity =
     (if quantity < min_quantity self then None
      else if decimal_truthy (fixed_price self) then fixed_price self
      else if decimal_truthy (discount_percentage self) then
        (case discount_percentage self of
           Some d \<Rightarrow> Some (base_price (product self) * (1 - d / 100))
         | None \<Rightarrow> None)
      else Some (base_price (product self)))"

section \<open>Role permissions (src/accounts/models.py)\<close>

record User =
  role :: string

text \<open>
  The dictionary literal of \<^verbatim>\<open>User.get_permissions\<close>, in the order of the source: for
  each role, the resources and for each resource the list of granted actions.
\<close>

definition permissions :: "(string \<times> (string \<times> string list) list) list" where
  "permissions =
    [(''super_admin'',
       [(''users'', [''create'', ''read'', ''update'', ''delete'']),
        (''leads'', [''create'', ''read'', ''update'', ''delete'', ''assign'']),
        (''customers'', [''create'', ''read'', ''update'', ''delete'']),
        (''deals'', [''create'', ''read'', ''update'', ''delete'']),
        (''products'', [''create'', ''read'', ''update'', ''delete'']),
        (''invoices'', [''create'', ''read'', ''update'', ''delete'', ''send'']),
        (''reports'', [''view'', ''export'']),
        (''settings'', [''view'', ''update'']),
        (''billing'', [''view'', ''update''])]),
     (''admin'',
       [(''users'', [''create'', ''read'', ''update'', ''delete'']),
        (''leads'', [''create'', ''read'', ''update'', ''delete'', ''assign'']),
        (''customers'', [''create'', ''read'', ''update'', ''delete'']),
        (''deals'', [''create'', ''read'', ''update'', ''delete'']),
        (''products'', [''create'', ''read'', ''update'', ''delete'']),
        (''invoices'', [''create'', ''read'', ''update'', ''delete'', ''send'']),
        (''reports'', [''view'', ''export'']),
        (''settings'', [''view'', ''update'']),
        (''billing'', [''view'', ''update''])]),
     (''manager'',
       [(''users'', [''read'']),
        (''leads'', [''create'', ''read'', ''update'', ''delete'', ''assign'']),
        (''customers'', [''create'', ''read'', ''update'', ''delete'']),
        (''deals'', [''create'', ''read'', ''update'', ''delete'']),
        (''products'', [''read'']),
        (''invoices'', [''create'', ''read'', ''update'', ''send'']),
        (''reports'', [''view'', ''export'']),
        (''settings'', [''view''])]),
     (''executive'',
       [(''users'', []),
        (''leads'', [''create'', ''read'', ''update'']),
        (''customers'', [''create'', ''read'', ''update'']),
        (''deals'', [''create'', ''read'', ''update'']),
        (''products'', [''read'']),
        (''invoices'', [''create'', ''read'']),
        (''reports'', [''view'']),
        (''settings'', [])]),
     (''viewer'',
       [(''users'', []),
        (''leads'', [''read'']),
        (''customers'', [''read'']),
        (''deals'', [''read'']),
        (''products'', [''read'']),
        (''invoices'', [''read'']),
        (''reports'', [''view'']),
        (''settings'', [])])]"

text \<open>
  \<^verbatim>\<open>return permissions.get(self.role, {})\<close>: the entry of the role, or the empty
  dictionary for a role the table does not list.
\<close>

definition get_permissions :: "User \<Rightarrow> (string \<times> string list) list" where
  "get_permissions self =
     (case map_of permissions (role self) of Some d \<Rightarrow> d | None \<Rightarrow> [])"

text \<open>The actions granted on one resource; a resource that is not a key grants none.\<close>

definition granted :: "User \<Rightarrow> string \<Rightarrow> string set" where
  "granted u resource =
     (case map_of (get_permissions u) resource of Some acts \<Rightarrow> set acts | None \<Rightarrow> {})"

section \<open>Tenants and subscription enforcement\<close>

subsection \<open>Values shared by the request handlers\<close>

text \<open>
  A point in time (\<^verbatim>\<open>datetime\<close>) is a number of microseconds since the epoch. A JSON
  value is one of the scalars the modelled code stores or sends.
\<close>

type_synonym datetime = int

datatype json = JNull | JBool bool | JInt int | JStr string

text \<open>\<^verbatim>\<open>str(n)\<close> of a Python integer: its decimal digits, with a minus sign if negative.\<close>

definition digit_char :: "nat \<Rightarrow> char" where
  "digit_char d = ''0123456789'' ! (d mod 10)"

function str_nat :: "nat \<Rightarrow> string" where
  "str_nat n = (if n < 10 then [digit_char n] else str_nat (n div 10) @ [digit_char n])"
  by pat_completeness auto
termination
  by (relation "measure id") auto

declare str_nat.simps [simp del]

definition str_int :: "int \<Rightarrow> string" where
  "str_int i = (if i < 0 then CHR ''-'' # str_nat (nat (- i)) else str_nat (nat i))"

text \<open>What an f-string prints for a value that is an integer or a string.\<close>

fun format_value :: "json \<Rightarrow> string" where
  "format_value (JInt i) = str_int i"
| "format_value (JStr s) = s"
| "format_value (JBool b) = (if b then ''True'' else ''False'')"
| "format_value JNull = ''None''"

subsection \<open>The tenant and its derived properties (src/tenants/models.py)\<close>

record Tenant =
  schema_name :: string
  subscription_status :: string
  trial_end_date :: "datetime option"
  max_users :: int
  max_leads :: int
  max_storage_mb :: int
  current_users :: int
  current_leads :: int
  current_storage_mb :: int
  enabled_features :: "string \<rightharpoonup> json"

text \<open>
  \<^verbatim>\<open>return self.subscription_status == 'trial' and self.trial_end_date > timezone.now()\<close>

  The second operand is evaluated only when the first is true. There the comparison of
  \<^verbatim>\<open>None\<close> with a \<^verbatim>\<open>datetime\<close> raises \<^verbatim>\<open>TypeError\<close>. The current time is
  the argument \<open>now\<close>.
\<close>

definition is_on_trial :: "Tenant \<Rightarrow> datetime \<Rightarrow> py_error + bool" where
  "is_on_trial self now =
     (if subscription_status self = ''trial'' then
        (case trial_end_date self of
           None \<Rightarrow> Inl TypeError
         | Some e \<Rightarrow> Inr (e > now))
      else Inr False)"

definition is_trial_expired :: "Tenant \<Rightarrow> datetime \<Rightarrow> py_error + bool" where
  "is_trial_expired self now =
     (if subscription_status self = ''trial'' then
        (case trial_end_date self of
           None \<Rightarrow> Inl TypeError
         | Some e \<Rightarrow> Inr (e \<le> now))
      else Inr False)"

definition can_add_users :: "Tenant \<Rightarrow> bool" where
  "can_add_users self = (max_users self = -1 \<or> current_users self < max_users self)"

definition can_add_leads :: "Tenant \<Rightarrow> bool" where
  "can_add_leads self = (max_leads self = -1 \<or> current_leads self < max_leads self)"

text \<open>
  \<^verbatim>\<open>
  if self.max_storage_mb == 0:
      return 0
  return (self.current_storage_mb / self.max_storage_mb) * 100
  \<close>
  The quotient of two integers is a float in Python; the model keeps the exact rational.
\<close>

definition storage_usage_percentage :: "Tenant \<Rightarrow> rat" where
  "storage_usage_percentage self =
     (if max_storage_mb self = 0 then 0
      else (of_int (current_storage_mb self) / of_int (max_storage_mb self)) * 100)"

text \<open>\<^verbatim>\<open>return self.enabled_features.get(feature_name, False)\<close>\<close>

definition has_feature :: "Tenant \<Rightarrow> string \<Rightarrow> json" where
  "has_feature self feature_name =
     (case enabled_features self feature_name of Some v \<Rightarrow> v | None \<Rightarrow> JBool False)"

subsection \<open>Requests and responses\<close>

text \<open>
  The parts of a request the middleware reads. \<open>tenant\<close> is \<open>None\<close> when the request
  has no \<^verbatim>\<open>tenant\<close> attribute; \<open>user\<close> is \<open>None\<close> for the anonymous user and the
  primary key of an authenticated one; \<open>FILES\<close> lists the uploaded files by form field
  with their sizes in bytes; \<open>request_method\<close> is \<^verbatim>\<open>request.method\<close>.
\<close>

record request =
  path :: string
  request_method :: string
  FILES :: "(string \<times> nat) list"
  tenant :: "Tenant option"
  user :: "int option"
  HTTP_X_FORWARDED_FOR :: "string option"
  REMOTE_ADDR :: "string option"

datatype response =
    JsonResponse "(string \<times> json) list" nat
  | HttpResponseRedirect string
  | HttpResponseForbidden string

text \<open>
  A flash message queued by \<^verbatim>\<open>messages.error\<close> or \<^verbatim>\<open>messages.warning\<close>. A handler
  that returns gives the messages it queued and its response; the response \<open>None\<close> lets
  the request through.
\<close>

datatype level = Error | Warning

type_synonym outcome = "(level \<times> string) list \<times> response option"

subsection \<open>SubscriptionMiddleware (src/ambivare\_erp/middleware/subscription.py)\<close>

text \<open>
  \<^verbatim>\<open>request.is_ajax()\<close>. The settings configure the cache backend
  \<^verbatim>\<open>django.core.cache.backends.redis.RedisCache\<close>, which Django has from version 4.0 on,
  and that version removed \<^verbatim>\<open>HttpRequest.is_ajax\<close>; nothing in the repository defines
  it. The call therefore raises \<^verbatim>\<open>AttributeError\<close>. In
  \<^verbatim>\<open>request.is_ajax() or request.path.startswith('/api/')\<close> it is the first operand, so
  each of the four handlers below raises before it builds a response; their bodies are
  kept as the source has them.
\<close>

definition request_is_ajax :: "request \<Rightarrow> py_error + bool" where
  "request_is_ajax req = Inl AttributeError"

definition EXEMPT_URLS :: "string list" where
  "EXEMPT_URLS =
     [''/admin/'', ''/api/auth/login/'', ''/api/auth/logout/'', ''/billing/subscription/'',
      ''/billing/upgrade/'', ''/static/'', ''/media/'']"

definition handle_cancelled_subscription :: "request \<Rightarrow> py_error + outcome" where
  "handle_cancelled_subscription req =
     (case request_is_ajax req of
        Inl err \<Rightarrow> Inl err
      | Inr ajax \<Rightarrow>
          Inr (if ajax \<or> startswith (path req) ''/api/'' then
             ([], Some (JsonResponse
                [(''error'', JStr ''Your subscription has been cancelled. Please contact support.''),
                 (''code'', JStr ''SUBSCRIPTION_CANCELLED'')] 403))
           else
             ([(Error, ''Your subscription has been cancelled. Please contact support.'')],
              Some (HttpResponseRedirect ''billing:subscription''))))"

definition handle_past_due_subscription :: "request \<Rightarrow> py_error + outcome" where
  "handle_past_due_subscription req =
     (case request_is_ajax req of
        Inl err \<Rightarrow> Inl err
      | Inr ajax \<Rightarrow>
          Inr (if ajax \<or> startswith (path req) ''/api/'' then
             ([], Some (JsonResponse
                [(''error'', JStr ''Your subscription payment is past due. Please update your payment method.''),
                 (''code'', JStr ''SUBSCRIPTION_PAST_DUE'')] 403))
           else
             ([(Warning, ''Your subscription payment is past due. Please update your payment method.'')],
              if request_method req \<noteq> ''GET'' then Some (HttpResponseRedirect ''billing:subscription'')
              else None)))"

definition handle_expired_trial :: "request \<Rightarrow> py_error + outcome" where
  "handle_expired_trial req =
     (case request_is_ajax req of
        Inl err \<Rightarrow> Inl err
      | Inr ajax \<Rightarrow>
          Inr (if ajax \<or> startswith (path req) ''/api/'' then
             ([], Some (JsonResponse
                [(''error'', JStr ''Your trial has expired. Please upgrade to continue.''),
                 (''code'', JStr ''TRIAL_EXPIRED'')] 403))
           else
             ([(Warning, ''Your trial has expired. Please upgrade to continue using our services.'')],
              Some (HttpResponseRedirect ''billing:upgrade''))))"

text \<open>
  \<^verbatim>\<open>
  def _handle_limit_exceeded(self, request, resource_type, limit):
      if request.is_ajax() or request.path.startswith('/api/'):
          return JsonResponse({
              'error': f'You have reached your {resource_type} limit ({limit}). Please upgrade your plan.',
              'code': 'LIMIT_EXCEEDED',
              'resource': resource_type,
              'limit': limit
          }, status=403)
      messages.error(request,
          f'You have reached your {resource_type} limit ({limit}). Please upgrade your plan to continue.')
      return redirect('billing:upgrade')
  \<close>
\<close>

definition handle_limit_exceeded :: "request \<Rightarrow> string \<Rightarrow> json \<Rightarrow> py_error + outcome" where
  "handle_limit_exceeded req resource_type limit =
     (case request_is_ajax req of
        Inl err \<Rightarrow> Inl err
      | Inr ajax \<Rightarrow>
          Inr (if ajax \<or> startswith (path req) ''/api/'' then
             ([], Some (JsonResponse
                [(''error'', JStr (''You have reached your '' @ resource_type @ '' limit ('' @
                                   format_value limit @ ''). Please upgrade your plan.'')),
                 (''code'', JStr ''LIMIT_EXCEEDED''),
                 (''resource'', JStr resource_type),
                 (''limit'', limit)] 403))
           else
             ([(Error, ''You have reached your '' @ resource_type @ '' limit ('' @
                       format_value limit @ ''). Please upgrade your plan to continue.'')],
              Some (HttpResponseRedirect ''billing:upgrade''))))"

text \<open>
  \<^verbatim>\<open>
  def _check_resource_limits(self, request, tenant):
      if request.path.startswith('/accounts/users/create/') or \
         request.path.startswith('/api/users/'):
          if not tenant.can_add_users:
              return self._handle_limit_exceeded(request, 'users', tenant.max_users)
      if request.path.startswith('/sales/leads/create/') or \
         request.path.startswith('/api/leads/'):
          if not tenant.can_add_leads:
              return self._handle_limit_exceeded(request, 'leads', tenant.max_leads)
      if 'file' in request.FILES or 'attachment' in request.FILES:
          file_size = sum(f.size for f in request.FILES.values())
          file_size_mb = file_size / (1024 * 1024)
          if tenant.current_storage_mb + file_size_mb > tenant.max_storage_mb:
              return self._handle_limit_exceeded(request, 'storage', f"{tenant.max_storage_mb}MB")
      return None
  \<close>
  The three checks are written as three functions, each falling through to the next;
  \<open>tn\<close> is the tenant.
\<close>

definition check_storage_limit :: "request \<Rightarrow> Tenant \<Rightarrow> py_error + outcome" where
  "check_storage_limit req tn =
     (if ''file'' \<in> fst ` set (FILES req) \<or> ''attachment'' \<in> fst ` set (FILES req) then
        (let file_size = sum_list (map snd (FILES req));
             file_size_mb = (of_nat file_size :: rat) / (1024 * 1024)
         in if of_int (current_storage_mb tn) + file_size_mb > of_int (max_storage_mb tn)
            then handle_limit_exceeded req ''storage''
                   (JStr (str_int (max_storage_mb tn) @ ''MB''))
            else Inr ([], None))
      else Inr ([], None))"

definition check_lead_limit :: "request \<Rightarrow> Tenant \<Rightarrow> py_error + outcome" where
  "check_lead_limit req tn =
     (if (startswith (path req) ''/sales/leads/create/'' \<or> startswith (path req) ''/api/leads/'')
         \<and> \<not> can_add_leads tn
      then handle_limit_exceeded req ''leads'' (JInt (max_leads tn))
      else check_storage_limit req tn)"

definition check_resource_limits :: "request \<Rightarrow> Tenant \<Rightarrow> py_error + outcome" where
  "check_resource_limits req tn =
     (if (startswith (path req) ''/accounts/users/create/'' \<or> startswith (path req) ''/api/users/'')
         \<and> \<not> can_add_users tn
      then handle_limit_exceeded req ''users'' (JInt (max_users tn))
      else check_lead_limit req tn)"

text \<open>
  \<^verbatim>\<open>
  def process_request(self, request):
      if hasattr(request, 'tenant') and request.tenant.schema_name == get_public_schema_name():
          return None
      for exempt_url in self.EXEMPT_URLS:
          if request.path.startswith(exempt_url):
              return None
      if not hasattr(request, 'tenant'):
          return None
      tenant = request.tenant
      if tenant.subscription_status == 'cancelled':
          return self._handle_cancelled_subscription(request)
      if tenant.subscription_status == 'past_due':
          return self._handle_past_due_subscription(request)
      if tenant.is_trial_expired:
          return self._handle_expired_trial(request)
      if request.method == 'POST':
          return self._check_resource_limits(request, tenant)
      return None
  \<close>
  \<open>public_schema\<close> is the value of \<^verbatim>\<open>get_public_schema_name()\<close>, a setting of the
  tenancy library.
\<close>

definition SubscriptionMiddleware_process_request :: "string \<Rightarrow> request \<Rightarrow> datetime \<Rightarrow> py_error + outcome" where
  "SubscriptionMiddleware_process_request public_schema req now =
     (case tenant req of
        None \<Rightarrow> Inr ([], None)
      | Some tn \<Rightarrow>
          if schema_name tn = public_schema then Inr ([], None)
          else if \<exists>e \<in> set EXEMPT_URLS. startswith (path req) e then Inr ([], None)
          else if subscription_status tn = ''cancelled'' then handle_cancelled_subscription req
          else if subscription_status tn = ''past_due'' then handle_past_due_subscription req
          else
            (case is_trial_expired tn now of
               Inl err \<Rightarrow> Inl err
             | Inr expired \<Rightarrow>
                 if expired then handle_expired_trial req
                 else if request_method req = ''POST'' then check_resource_limits req tn
                 else Inr ([], None)))"

section \<open>Rate limiting (src/ambivare\_erp/middleware/security.py)\<close>

text \<open>
  \<^verbatim>\<open>self.rates\<close>: for each path prefix the pair (maximum number of requests, window in
  seconds), in the insertion order of the dictionary, which is the order of iteration.
\<close>

definition rates :: "(string \<times> nat \<times> nat) list" where
  "rates =
     [(''api/auth/login'', 5, 300),
      (''api/auth/register'', 3, 3600),
      (''api/auth/password-reset'', 3, 3600),
      (''api/'', 1000, 3600)]"

text \<open>
  \<^verbatim>\<open>
  rate_limit = None
  for pattern, limit in self.rates.items():
      if path.startswith(pattern):
          rate_limit = limit
          break
  \<close>
\<close>

fun find_rate_limit :: "string \<Rightarrow> (string \<times> nat \<times> nat) list \<Rightarrow> (nat \<times> nat) option" where
  "find_rate_limit p [] = None"
| "find_rate_limit p ((pattern, limit) # rest) =
     (if startswith p pattern then Some limit else find_rate_limit p rest)"

text \<open>\<^verbatim>\<open>request.path.strip('/')\<close>: the path without its leading and trailing slashes.\<close>

definition strip_slashes :: "string \<Rightarrow> string" where
  "strip_slashes s =
     rev (dropWhile (\<lambda>c. c = CHR ''/'') (rev (dropWhile (\<lambda>c. c = CHR ''/'') s)))"

text \<open>
  \<^verbatim>\<open>
  def get_client_id(self, request):
      if request.user.is_authenticated:
          return f"user:{request.user.id}"
      x_forwarded_for = request.META.get('HTTP_X_FORWARDED_FOR')
      if x_forwarded_for:
          ip = x_forwarded_for.split(',')[0]
      else:
          ip = request.META.get('REMOTE_ADDR')
      return f"ip:{ip}"
  \<close>
  A missing or empty forwarding header is false; a missing \<^verbatim>\<open>REMOTE_ADDR\<close> prints as
  \<^verbatim>\<open>None\<close>.
\<close>

definition client_ip :: "request \<Rightarrow> string" where
  "client_ip req =
     (case HTTP_X_FORWARDED_FOR req of
        Some (c # cs) \<Rightarrow> takeWhile (\<lambda>x. x \<noteq> CHR '','') (c # cs)
      | _ \<Rightarrow> (case REMOTE_ADDR req of Some a \<Rightarrow> a | None \<Rightarrow> ''None''))"

definition get_client_id :: "request \<Rightarrow> string" where
  "get_client_id req =
     (case user req of
        Some uid \<Rightarrow> ''user:'' @ str_int uid
      | None \<Rightarrow> ''ip:'' @ client_ip req)"

text \<open>\<^verbatim>\<open>cache_key = f"{path}:{client_id}"\<close>\<close>

definition cache_key :: "request \<Rightarrow> string" where
  "cache_key req = strip_slashes (path req) @ '':'' @ get_client_id req"

text \<open>
  The middleware keeps \<^verbatim>\<open>self.cache\<close>, a dictionary from cache keys to lists of
  timestamps. \<open>window\<close> reads an entry, a missing key being the empty list the code
  stores for it.
\<close>

type_synonym rate_cache = "string \<rightharpoonup> rat list"

definition window :: "rate_cache \<Rightarrow> string \<Rightarrow> rat list" where
  "window cache k = (case cache k of None \<Rightarrow> [] | Some ts \<Rightarrow> ts)"

text \<open>
  \<^verbatim>\<open>
  def process_request(self, request):
      path = request.path.strip('/')
      ...
      if not rate_limit:
          return None
      client_id = self.get_client_id(request)
      cache_key = f"{path}:{client_id}"
      max_requests, window = rate_limit
      current_time = time.time()
      if cache_key not in self.cache:
          self.cache[cache_key] = []
      self.cache[cache_key] = [
          timestamp for timestamp in self.cache[cache_key]
          if current_time - timestamp < window
      ]
      if len(self.cache[cache_key]) >= max_requests:
          return HttpResponseForbidden('Rate limit exceeded. Please try again later.')
      self.cache[cache_key].append(current_time)
      return None
  \<close>
  The reading of the clock is the argument \<open>current_time\<close>, in seconds. The function
  returns the cache after the call and the response.
\<close>

definition RateLimitMiddleware_process_request ::
  "rate_cache \<Rightarrow> request \<Rightarrow> rat \<Rightarrow> rate_cache \<times> response option" where
  "RateLimitMiddleware_process_request cache req current_time =
     (case find_rate_limit (strip_slashes (path req)) rates of
        None \<Rightarrow> (cache, None)
      | Some (max_requests, win) \<Rightarrow>
          (let kept = filter (\<lambda>timestamp. current_time - timestamp < of_nat win)
                        (window cache (cache_key req))
           in if length kept \<ge> max_requests
              then (cache(cache_key req \<mapsto> kept),
                    Some (HttpResponseForbidden ''Rate limit exceeded. Please try again later.''))
              else (cache(cache_key req \<mapsto> kept @ [current_time]), None)))"

text \<open>
  A sequence of requests, each with the time at which the middleware handles it: the
  cache is threaded through, the responses are collected.
\<close>

fun run_requests ::
  "rate_cache \<Rightarrow> (request \<times> rat) list \<Rightarrow> rate_cache \<times> response option list" where
  "run_requests cache [] = (cache, [])"
| "run_requests cache ((req, t) # rest) =
     (case RateLimitMiddleware_process_request cache req t of
        (cache', r) \<Rightarrow>
          (case run_requests cache' rest of (cache'', rs) \<Rightarrow> (cache'', r # rs)))"

section \<open>Python and ORM helpers\<close>

text \<open>\<^verbatim>\<open>s.split(sep)\<close> for a one-character separator.\<close>

fun split_on :: "char \<Rightarrow> string \<Rightarrow> string list" where
  "split_on sep [] = [[]]"
| "split_on sep (c # cs) =
     (if c = sep then [] # split_on sep cs
      else (case split_on sep cs of
              w # ws \<Rightarrow> (c # w) # ws
            | [] \<Rightarrow> [[c]]))"

text \<open>
  \<^verbatim>\<open>int(s)\<close> on a string, \<open>None\<close> standing for \<^verbatim>\<open>ValueError\<close>: surrounding
  whitespace is dropped, one sign is allowed, and the rest is a non-empty run of decimal
  digits in which single underscores may separate digits.
\<close>

definition py_isspace :: "char \<Rightarrow> bool" where
  "py_isspace c =
     (of_char c \<in> set [9, 10, 11, 12, 13, 28, 29, 30, 31, 32, 133, 160 :: nat])"

definition py_strip :: "string \<Rightarrow> string" where
  "py_strip s = rev (dropWhile py_isspace (rev (dropWhile py_isspace s)))"

definition is_digit :: "char \<Rightarrow> bool" where
  "is_digit c = (48 \<le> (of_char c :: nat) \<and> (of_char c :: nat) \<le> 57)"

fun digits_value :: "nat \<Rightarrow> string \<Rightarrow> nat option" where
  "digits_value acc [] = Some acc"
| "digits_value acc (c # cs) =
     (if is_digit c then digits_value (10 * acc + (of_char c - 48)) cs else None)"

definition py_int :: "string \<Rightarrow> int option" where
  "py_int s =
     (let t = py_strip s;
          neg = (case t of c # r \<Rightarrow> c = CHR ''-'' | [] \<Rightarrow> False);
          body = (case t of c # r \<Rightarrow> if c = CHR ''-'' \<or> c = CHR ''+'' then r else t | [] \<Rightarrow> []);
          groups = split_on CHR ''_'' body
      in if [] \<in> set groups then None
         else (case digits_value 0 (concat groups) of
                 None \<Rightarrow> None
               | Some n \<Rightarrow> Some (if neg then - int n else int n)))"

text \<open>The format specification \<^verbatim>\<open>{n:0Wd}\<close>: sign, then zeros up to the width \<open>W\<close>.\<close>

definition format_0d :: "nat \<Rightarrow> int \<Rightarrow> string" where
  "format_0d width n =
     (let ds = str_nat (nat \<bar>n\<bar>);
          sign = (if n < 0 then ''-'' else [])
      in sign @ replicate (width - length sign - length ds) CHR ''0'' @ ds)"

text \<open>
  \<^verbatim>\<open>queryset.order_by('-created_at').first()\<close>: the row with the greatest
  \<^verbatim>\<open>created_at\<close>, \<open>None\<close> on an empty table. Among rows of equal \<^verbatim>\<open>created_at\<close>
  the database is free to choose; the model takes the one inserted first.
\<close>

fun latest_by :: "('a \<Rightarrow> int) \<Rightarrow> 'a list \<Rightarrow> 'a option" where
  "latest_by f [] = None"
| "latest_by f (x # xs) =
     (case latest_by f xs of
        None \<Rightarrow> Some x
      | Some y \<Rightarrow> if f y > f x then Some y else Some x)"

text \<open>
  The next value of an \<^verbatim>\<open>AutoField\<close> sequence: a key greater than every key in the
  table.
\<close>

definition next_id :: "nat list \<Rightarrow> nat" where
  "next_id ids = Suc (fold max ids 0)"

text \<open>
  Dates are days since the epoch; \<^verbatim>\<open>timezone.now().date()\<close> is the day of the UTC
  timestamp (the settings have \<^verbatim>\<open>TIME_ZONE = 'UTC'\<close>). A method that reads the clock
  takes the reading as its argument \<open>now\<close>; the calls of \<^verbatim>\<open>timezone.now()\<close> within
  one method call are modelled by the same reading.
\<close>

type_synonym date = int

definition date_of :: "datetime \<Rightarrow> date" where
  "date_of now = now div 86400000000"

type_synonym uuid = nat

section \<open>Customers and leads (src/sales/models)\<close>

text \<open>
  A primary key declared \<^verbatim>\<open>UUIDField(primary_key=True, default=uuid.uuid4)\<close> is a
  \<open>uuid\<close>; a reference to a user is the user's integer key. Of each class the record
  keeps the fields that the modelled methods read or write.
\<close>

record Customer =
  cust_id :: uuid
  cust_customer_code :: string
  cust_customer_type :: string
  cust_first_name :: string
  cust_last_name :: string
  cust_email :: string
  cust_phone :: string
  cust_secondary_phone :: string
  cust_company_name :: string
  cust_job_title :: string
  cust_industry :: string
  cust_billing_address :: string
  cust_billing_city :: string
  cust_billing_state :: string
  cust_billing_country :: string
  cust_billing_postal_code :: string
  cust_assigned_to :: "int option"
  cust_payment_terms :: int
  cust_lead_source :: string
  cust_created_by :: "int option"
  cust_created_at :: datetime

record Lead =
  lead_id :: uuid
  lead_first_name :: string
  lead_last_name :: string
  lead_email :: string
  lead_phone :: string
  lead_secondary_phone :: string
  lead_company_name :: string
  lead_job_title :: string
  lead_industry :: string
  lead_status :: string
  lead_source :: string
  lead_assigned_to :: "int option"
  lead_address :: string
  lead_city :: string
  lead_state :: string
  lead_country :: string
  lead_postal_code :: string
  lead_converted_to_customer :: "uuid option"
  lead_converted_date :: "datetime option"
  lead_updated_at :: datetime

text \<open>
  \<^verbatim>\<open>Model.save()\<close>: the row with the key of the instance is replaced, and a new row is
  appended when the table has none. The tables list their rows in the order of insertion.
  Constraint violations of the database are outside the model.
\<close>

definition save_row :: "('a \<Rightarrow> 'k) \<Rightarrow> 'a \<Rightarrow> 'a list \<Rightarrow> 'a list" where
  "save_row key row table =
     (if key row \<in> key ` set table
      then map (\<lambda>r. if key r = key row then row else r) table
      else table @ [row])"

text \<open>
  \<^verbatim>\<open>
  def save(self, *args, **kwargs):
      if not self.customer_code:
          last_customer = Customer.objects.order_by('-created_at').first()
          if last_customer and last_customer.customer_code:
              try:
                  last_num = int(last_customer.customer_code.split('-')[1])
                  self.customer_code = f"CUST-{last_num + 1:05d}"
              except (IndexError, ValueError):
                  self.customer_code = "CUST-00001"
          else:
              self.customer_code = "CUST-00001"
      super().save(*args, **kwargs)
  \<close>
\<close>

definition next_customer_code :: "Customer list \<Rightarrow> string" where
  "next_customer_code table =
     (case latest_by cust_created_at table of
        None \<Rightarrow> ''CUST-00001''
      | Some last_customer \<Rightarrow>
          if cust_customer_code last_customer \<noteq> [] then
            (case split_on CHR ''-'' (cust_customer_code last_customer) of
               a # b # rest \<Rightarrow>
                 (case py_int b of
                    Some last_num \<Rightarrow> ''CUST-'' @ format_0d 5 (last_num + 1)
                  | None \<Rightarrow> ''CUST-00001'')
             | _ \<Rightarrow> ''CUST-00001'')
          else ''CUST-00001'')"

text \<open>
  \<open>Customer_save\<close> returns the table and the instance after the call. A row that is
  inserted gets \<^verbatim>\<open>created_at\<close> from the clock (\<^verbatim>\<open>auto_now_add\<close>).
\<close>

definition Customer_save :: "Customer list \<Rightarrow> datetime \<Rightarrow> Customer \<Rightarrow> Customer list \<times> Customer" where
  "Customer_save table now self =
     (let self1 = (if cust_customer_code self = []
                   then self\<lparr>cust_customer_code := next_customer_code table\<rparr>
                   else self);
          self2 = (if cust_id self1 \<in> cust_id ` set table then self1
                   else self1\<lparr>cust_created_at := now\<rparr>)
      in (save_row cust_id self2 table, self2))"

text \<open>The state of a lead conversion: the table of customers and the table of leads.\<close>

record sales_db =
  customers :: "Customer list"
  leads :: "Lead list"

text \<open>
  \<^verbatim>\<open>
  def convert_to_customer(self, user):
      if self.status == 'converted':
          raise ValueError("Lead is already converted")
      customer = Customer.objects.create(
          first_name=self.first_name, last_name=self.last_name, email=self.email,
          phone=self.phone, secondary_phone=self.secondary_phone,
          company_name=self.company_name, job_title=self.job_title, industry=self.industry,
          billing_address=self.address, billing_city=self.city, billing_state=self.state,
          billing_country=self.country, billing_postal_code=self.postal_code,
          created_by=user, lead_source=self.source, assigned_to=self.assigned_to)
      self.converted_to_customer = customer
      self.converted_date = timezone.now()
      self.status = 'converted'
      self.save()
      return customer
  \<close>
  \<open>new_id\<close> is the value \<^verbatim>\<open>uuid.uuid4()\<close> gives the new customer and \<open>usr\<close> the key
  of \<^verbatim>\<open>user\<close>. The fields of the customer that the call does not pass take the defaults
  of their declarations. An error leaves no new state: the tables and the lead are the
  caller's.
\<close>

definition new_customer_of_lead :: "uuid \<Rightarrow> Lead \<Rightarrow> int option \<Rightarrow> Customer" where
  "new_customer_of_lead new_id self usr =
     \<lparr>cust_id = new_id,
      cust_customer_code = [],
      cust_customer_type = ''company'',
      cust_first_name = lead_first_name self,
      cust_last_name = lead_last_name self,
      cust_email = lead_email self,
      cust_phone = lead_phone self,
      cust_secondary_phone = lead_secondary_phone self,
      cust_company_name = lead_company_name self,
      cust_job_title = lead_job_title self,
      cust_industry = lead_industry self,
      cust_billing_address = lead_address self,
      cust_billing_city = lead_city self,
      cust_billing_state = lead_state self,
      cust_billing_country = lead_country self,
      cust_billing_postal_code = lead_postal_code self,
      cust_assigned_to = lead_assigned_to self,
      cust_payment_terms = 30,
      cust_lead_source = lead_source self,
      cust_created_by = usr,
      cust_created_at = 0\<rparr>"

definition Lead_save :: "Lead list \<Rightarrow> datetime \<Rightarrow> Lead \<Rightarrow> Lead list \<times> Lead" where
  "Lead_save table now self =
     (let self1 = self\<lparr>lead_updated_at := now\<rparr> in (save_row lead_id self1 table, self1))"

definition convert_to_customer ::
  "sales_db \<Rightarrow> datetime \<Rightarrow> uuid \<Rightarrow> Lead \<Rightarrow> int option \<Rightarrow> py_error + (sales_db \<times> Lead \<times> Customer)" where
  "convert_to_customer db now new_id self usr =
     (if lead_status self = ''converted'' then Inl ValueError
      else
        (case Customer_save (customers db) now (new_customer_of_lead new_id self usr) of
           (customers1, customer) \<Rightarrow>
             (let self1 = self\<lparr>lead_converted_to_customer := Some (cust_id customer),
                               lead_converted_date := Some now,
                               lead_status := ''converted''\<rparr>
              in (case Lead_save (leads db) now self1 of
                    (leads1, self2) \<Rightarrow>
                      Inr (\<lparr>customers = customers1, leads = leads1\<rparr>, self2, customer)))))"

section \<open>Invoices, quotations and payments (src/billing/models)\<close>

subsection \<open>Records and tables\<close>

text \<open>
  A line item has an integer key that the database assigns on insertion
  (\<open>None\<close> before). A foreign key is the key of the row it points to, except where a
  method reads fields of the related instance: there the record holds the instance
  (\<open>q_customer\<close>, \<open>pay_invoice\<close>).
\<close>

record InvoiceItem =
  ii_id :: "nat option"
  ii_invoice :: uuid
  ii_product :: "uuid option"
  ii_description :: string
  ii_quantity :: rat
  ii_unit_price :: rat
  ii_discount_percentage :: rat
  ii_discount_amount :: rat
  ii_tax_rate :: rat
  ii_tax_amount :: rat
  ii_total :: rat
  ii_order :: int

record Invoice =
  inv_id :: uuid
  inv_invoice_number :: string
  inv_customer :: uuid
  inv_deal :: "uuid option"
  inv_quotation :: "uuid option"
  inv_invoice_date :: date
  inv_due_date :: date
  inv_status :: string
  inv_subtotal :: rat
  inv_discount_type :: string
  inv_discount_value :: rat
  inv_discount_amount :: rat
  inv_tax_amount :: rat
  inv_total_amount :: rat
  inv_amount_paid :: rat
  inv_amount_due :: rat
  inv_currency :: string
  inv_payment_terms :: string
  inv_notes :: string
  inv_billing_address :: string
  inv_billing_city :: string
  inv_billing_state :: string
  inv_billing_country :: string
  inv_billing_postal_code :: string
  inv_created_by :: "int option"
  inv_created_at :: datetime

record QuotationItem =
  qi_id :: "nat option"
  qi_quotation :: uuid
  qi_product :: "uuid option"
  qi_description :: string
  qi_quantity :: rat
  qi_unit_price :: rat
  qi_discount_percentage :: rat
  qi_discount_amount :: rat
  qi_tax_rate :: rat
  qi_tax_amount :: rat
  qi_total :: rat
  qi_order :: int


text \<open>
  The key of a payment is \<open>None\<close> only on an instance whose \<^verbatim>\<open>id\<close> was set to
  \<^verbatim>\<open>None\<close> by hand: see \<open>Payment_init\<close> below.
\<close>

record Payment =
  pay_id :: "uuid option"
  pay_payment_number :: string
  pay_invoice :: Invoice
  pay_amount :: rat
  pay_payment_date :: date
  pay_payment_method :: string

record billing_db =
  invoices :: "Invoice list"
  invoice_items :: "InvoiceItem list"
  quotation_items :: "QuotationItem list"
  payments :: "Payment list"

subsection \<open>Line items\<close>

text \<open>
  \<^verbatim>\<open>
  def save(self, *args, **kwargs):
      subtotal = self.quantity * self.unit_price
      self.discount_amount = subtotal * (self.discount_percentage / 100)
      taxable_amount = subtotal - self.discount_amount
      self.tax_amount = taxable_amount * (self.tax_rate / 100)
      self.total = taxable_amount + self.tax_amount
      super().save(*args, **kwargs)
  \<close>
  \<open>InvoiceItem_amounts\<close> is the computation, \<open>InvoiceItem_save\<close> the whole method:
  an instance without a key is inserted under the next key of the table.
\<close>

definition InvoiceItem_amounts :: "InvoiceItem \<Rightarrow> InvoiceItem" where
  "InvoiceItem_amounts self =
     (let subtotal = ii_quantity self * ii_unit_price self;
          discount_amount = subtotal * (ii_discount_percentage self / 100);
          taxable_amount = subtotal - discount_amount;
          tax_amount = taxable_amount * (ii_tax_rate self / 100)
      in self\<lparr>ii_discount_amount := discount_amount,
               ii_tax_amount := tax_amount,
               ii_total := taxable_amount + tax_amount\<rparr>)"

definition row_key :: "nat option \<Rightarrow> nat" where
  "row_key k = (case k of Some n \<Rightarrow> n | None \<Rightarrow> 0)"

definition InvoiceItem_save :: "billing_db \<Rightarrow> InvoiceItem \<Rightarrow> billing_db \<times> InvoiceItem" where
  "InvoiceItem_save db self =
     (let self1 = InvoiceItem_amounts self;
          self2 = (case ii_id self1 of
                     None \<Rightarrow> self1\<lparr>ii_id := Some (next_id (map (row_key \<circ> ii_id) (invoice_items db)))\<rparr>
                   | Some k \<Rightarrow> self1)
      in (db\<lparr>invoice_items := save_row ii_id self2 (invoice_items db)\<rparr>, self2))"


text \<open>
  \<^verbatim>\<open>self.items.all()\<close>: the line items of the instance, in the order of the class
  (\<^verbatim>\<open>ordering = ['order', 'id']\<close>).
\<close>

definition Invoice_items :: "billing_db \<Rightarrow> Invoice \<Rightarrow> InvoiceItem list" where
  "Invoice_items db self =
     sort_key ii_order (sort_key (row_key \<circ> ii_id)
       (filter (\<lambda>i. ii_invoice i = inv_id self) (invoice_items db)))"


subsection \<open>Invoice\<close>

text \<open>
  \<^verbatim>\<open>
  @property
  def is_overdue(self):
      return self.status not in ['paid', 'cancelled', 'refunded'] and self.due_date < timezone.now().date()
  \<close>
\<close>

definition is_overdue :: "Invoice \<Rightarrow> date \<Rightarrow> bool" where
  "is_overdue self today =
     (inv_status self \<notin> set [''paid'', ''cancelled'', ''refunded''] \<and> inv_due_date self < today)"

text \<open>
  \<^verbatim>\<open>
  def calculate_totals(self):
      self.subtotal = sum(item.total for item in self.items.all())
      if self.discount_type == 'fixed':
          self.discount_amount = min(self.discount_value, self.subtotal)
      else:
          self.discount_amount = self.subtotal * (self.discount_value / 100)
      taxable_amount = self.subtotal - self.discount_amount
      self.tax_amount = sum(item.tax_amount for item in self.items.all())
      self.total_amount = taxable_amount + self.tax_amount
      self.amount_due = self.total_amount - self.amount_paid
      if self.amount_paid >= self.total_amount:
          self.status = 'paid'
      elif self.amount_paid > 0:
          self.status = 'partial'
      elif self.is_overdue and self.status not in ['draft', 'cancelled']:
          self.status = 'overdue'
  \<close>
  The method changes the instance and does not save it; the function returns the instance.
\<close>

definition Invoice_calculate_totals :: "billing_db \<Rightarrow> date \<Rightarrow> Invoice \<Rightarrow> Invoice" where
  "Invoice_calculate_totals db today self =
     (let subtotal = sum_list (map ii_total (Invoice_items db self));
          discount_amount =
            (if inv_discount_type self = ''fixed'' then min (inv_discount_value self) subtotal
             else subtotal * (inv_discount_value self / 100));
          taxable_amount = subtotal - discount_amount;
          tax_amount = sum_list (map ii_tax_amount (Invoice_items db self));
          total_amount = taxable_amount + tax_amount;
          status =
            (if inv_amount_paid self \<ge> total_amount then ''paid''
             else if inv_amount_paid self > 0 then ''partial''
             else if is_overdue self today \<and> inv_status self \<notin> set [''draft'', ''cancelled'']
               then ''overdue''
             else inv_status self)
      in self\<lparr>inv_subtotal := subtotal,
               inv_discount_amount := discount_amount,
               inv_tax_amount := tax_amount,
               inv_total_amount := total_amount,
               inv_amount_due := total_amount - inv_amount_paid self,
               inv_status := status\<rparr>)"

text \<open>
  \<^verbatim>\<open>
  def save(self, *args, **kwargs):
      if not self.invoice_number:
          prefix = 'INV'
          last_invoice = Invoice.objects.filter(
              invoice_number__startswith=prefix
          ).order_by('-created_at').first()
          if last_invoice:
              try:
                  last_num = int(last_invoice.invoice_number.split('-')[-1])
                  new_num = last_num + 1
              except (IndexError, ValueError):
                  new_num = 1001
          else:
              new_num = 1001
          self.invoice_number = f"{prefix}-{new_num:06d}"
      super().save(*args, **kwargs)
  \<close>
\<close>

definition next_invoice_number :: "Invoice list \<Rightarrow> string" where
  "next_invoice_number table =
     (let new_num =
            (case latest_by inv_created_at
                    (filter (\<lambda>i. startswith (inv_invoice_number i) ''INV'') table) of
               None \<Rightarrow> 1001
             | Some last_invoice \<Rightarrow>
                 (case py_int (last (split_on CHR ''-'' (inv_invoice_number last_invoice))) of
                    Some last_num \<Rightarrow> last_num + 1
                  | None \<Rightarrow> 1001))
      in ''INV-'' @ format_0d 6 new_num)"

definition Invoice_save :: "billing_db \<Rightarrow> datetime \<Rightarrow> Invoice \<Rightarrow> billing_db \<times> Invoice" where
  "Invoice_save db now self =
     (let self1 = (if inv_invoice_number self = []
                   then self\<lparr>inv_invoice_number := next_invoice_number (invoices db)\<rparr>
                   else self);
          self2 = (if inv_id self1 \<in> inv_id ` set (invoices db) then self1
                   else self1\<lparr>inv_created_at := now\<rparr>)
      in (db\<lparr>invoices := save_row inv_id self2 (invoices db)\<rparr>, self2))"

subsection \<open>Payment\<close>

text \<open>
  The class declares \<^verbatim>\<open>id = models.UUIDField(primary_key=True, default=uuid.uuid4,
  editable=False)\<close>. The constructor of a model gives every field that is not passed its
  default, so an instance built by \<^verbatim>\<open>Payment(invoice=..., amount=..., ...)\<close> or by
  \<^verbatim>\<open>Payment.objects.create(...)\<close> has a key from its construction on;
  \<open>default_id\<close> is the value \<^verbatim>\<open>uuid.uuid4()\<close> returned there.
\<close>

definition Payment_init :: "uuid \<Rightarrow> Invoice \<Rightarrow> rat \<Rightarrow> date \<Rightarrow> string \<Rightarrow> Payment" where
  "Payment_init default_id invoice amount payment_date payment_method =
     \<lparr>pay_id = Some default_id,
      pay_payment_number = [],
      pay_invoice = invoice,
      pay_amount = amount,
      pay_payment_date = payment_date,
      pay_payment_method = payment_method\<rparr>"

text \<open>
  \<^verbatim>\<open>
  def save(self, *args, **kwargs):
      if not self.payment_number:
          self.payment_number = f"PAY-{timezone.now().strftime('%Y%m%d')}-{uuid.uuid4().hex[:6].upper()}"
      is_new = not self.pk
      super().save(*args, **kwargs)
      if is_new:
          self.invoice.amount_paid += self.amount
          self.invoice.calculate_totals()
          self.invoice.save()
  \<close>
  \<^verbatim>\<open>not self.pk\<close> is true exactly when the key is \<^verbatim>\<open>None\<close>: a \<^verbatim>\<open>UUID\<close>
  object is true in a condition. \<open>fresh_number\<close> is the number the f-string produces
  from the clock and a random value, \<open>new_id\<close> the key \<^verbatim>\<open>Model.save\<close> draws from the
  default for an instance whose key is \<^verbatim>\<open>None\<close>. The function returns the tables and the
  instance, with its related invoice, after the call.
\<close>

definition Payment_save ::
  "billing_db \<Rightarrow> datetime \<Rightarrow> string \<Rightarrow> uuid \<Rightarrow> Payment \<Rightarrow> billing_db \<times> Payment" where
  "Payment_save db now fresh_number new_id self =
     (let self1 = (if pay_payment_number self = []
                   then self\<lparr>pay_payment_number := fresh_number\<rparr> else self);
          is_new = (pay_id self1 = None);
          self2 = (case pay_id self1 of
                     None \<Rightarrow> self1\<lparr>pay_id := Some new_id\<rparr>
                   | Some k \<Rightarrow> self1);
          db1 = db\<lparr>payments := save_row pay_id self2 (payments db)\<rparr>
      in if is_new then
           (let invoice1 = (pay_invoice self2)
                  \<lparr>inv_amount_paid := inv_amount_paid (pay_invoice self2) + pay_amount self2\<rparr>;
                invoice2 = Invoice_calculate_totals db1 (date_of now) invoice1
            in (case Invoice_save db1 now invoice2 of
                  (db2, invoice3) \<Rightarrow> (db2, self2\<lparr>pay_invoice := invoice3\<rparr>)))
         else (db1, self2))"

text \<open>\<^verbatim>\<open>Payment.objects.create(...)\<close>: construct, then save.\<close>

definition Payment_objects_create ::
  "billing_db \<Rightarrow> datetime \<Rightarrow> string \<Rightarrow> uuid \<Rightarrow> Invoice \<Rightarrow> rat \<Rightarrow> date \<Rightarrow> string
     \<Rightarrow> billing_db \<times> Payment" where
  "Payment_objects_create db now fresh_number default_id invoice amount payment_date payment_method =
     Payment_save db now fresh_number default_id
       (Payment_init default_id invoice amount payment_date payment_method)"

subsection \<open>Quotation\<close>






section \<open>Webhook signatures (src/integrations/models.py)\<close>

subsection \<open>SHA-256 and HMAC, the functions of \<^verbatim>\<open>hashlib\<close> and \<^verbatim>\<open>hmac\<close>\<close>

text \<open>
  \<^verbatim>\<open>hashlib.sha256\<close> and \<^verbatim>\<open>hmac.new\<close> are functions of Python's standard library.
  They are modelled by the algorithms they implement: SHA-256 as FIPS 180-4 defines it, on
  lists of bytes, and HMAC as RFC 2104 defines it, with the block size 64 of SHA-256.
\<close>

text \<open>
  A byte is a natural number below 256 and a 32-bit word one below \<open>2\<^sup>3\<^sup>2\<close>; the
  wrap-around of the word addition is written out.
\<close>

type_synonym byte = nat
type_synonym w32 = nat

definition add32 :: "w32 \<Rightarrow> w32 \<Rightarrow> w32" where
  "add32 x y = (x + y) mod 4294967296"

definition not32 :: "w32 \<Rightarrow> w32" where
  "not32 x = 4294967295 - x"

definition shr :: "nat \<Rightarrow> w32 \<Rightarrow> w32" where
  "shr n x = x div 2 ^ n"

definition rotr :: "nat \<Rightarrow> w32 \<Rightarrow> w32" where
  "rotr n x = x div 2 ^ n + (x mod 2 ^ n) * 2 ^ (32 - n)"

definition Ch :: "w32 \<Rightarrow> w32 \<Rightarrow> w32 \<Rightarrow> w32" where
  "Ch x y z = (x AND y) XOR (not32 x AND z)"

definition Maj :: "w32 \<Rightarrow> w32 \<Rightarrow> w32 \<Rightarrow> w32" where
  "Maj x y z = (x AND y) XOR (x AND z) XOR (y AND z)"

definition Sigma0 :: "w32 \<Rightarrow> w32" where
  "Sigma0 x = rotr 2 x XOR rotr 13 x XOR rotr 22 x"

definition Sigma1 :: "w32 \<Rightarrow> w32" where
  "Sigma1 x = rotr 6 x XOR rotr 11 x XOR rotr 25 x"

definition sigma0 :: "w32 \<Rightarrow> w32" where
  "sigma0 x = rotr 7 x XOR rotr 18 x XOR shr 3 x"

definition sigma1 :: "w32 \<Rightarrow> w32" where
  "sigma1 x = rotr 17 x XOR rotr 19 x XOR shr 10 x"

definition K256 :: "w32 list" where
  "K256 =
    [0x428a2f98, 0x71374491, 0xb5c0fbcf, 0xe9b5dba5, 0x3956c25b, 0x59f111f1, 0x923f82a4, 0xab1c5ed5,
     0xd807aa98, 0x12835b01, 0x243185be, 0x550c7dc3, 0x72be5d74, 0x80deb1fe, 0x9bdc06a7, 0xc19bf174,
     0xe49b69c1, 0xefbe4786, 0x0fc19dc6, 0x240ca1cc, 0x2de92c6f, 0x4a7484aa, 0x5cb0a9dc, 0x76f988da,
     0x983e5152, 0xa831c66d, 0xb00327c8, 0xbf597fc7, 0xc6e00bf3, 0xd5a79147, 0x06ca6351, 0x14292967,
     0x27b70a85, 0x2e1b2138, 0x4d2c6dfc, 0x53380d13, 0x650a7354, 0x766a0abb, 0x81c2c92e, 0x92722c85,
     0xa2bfe8a1, 0xa81a664b, 0xc24b8b70, 0xc76c51a3, 0xd192e819, 0xd6990624, 0xf40e3585, 0x106aa070,
     0x19a4c116, 0x1e376c08, 0x2748774c, 0x34b0bcb5, 0x391c0cb3, 0x4ed8aa4a, 0x5b9cca4f, 0x682e6ff3,
     0x748f82ee, 0x78a5636f, 0x84c87814, 0x8cc70208, 0x90befffa, 0xa4506ceb, 0xbef9a3f7, 0xc67178f2]"

definition H256 :: "w32 list" where
  "H256 =
    [0x6a09e667, 0xbb67ae85, 0x3c6ef372, 0xa54ff53a, 0x510e527f, 0x9b05688c, 0x1f83d9ab, 0x5be0cd19]"

text \<open>Big-endian conversions between bytes and words.\<close>

fun be_word :: "byte list \<Rightarrow> w32" where
  "be_word [] = 0"
| "be_word (b # bs) = b * 256 ^ length bs + be_word bs"

definition word_bytes :: "w32 \<Rightarrow> byte list" where
  "word_bytes w = [w div 16777216 mod 256, w div 65536 mod 256, w div 256 mod 256, w mod 256]"

definition length_bytes :: "nat \<Rightarrow> byte list" where
  "length_bytes n = map (\<lambda>i. n div 256 ^ i mod 256) [7, 6, 5, 4, 3, 2, 1, 0]"

text \<open>Padding: the bit 1, zeros up to 56 modulo 64 bytes, and the length in bits.\<close>

definition pad :: "byte list \<Rightarrow> byte list" where
  "pad m = m @ [0x80] @ replicate ((119 - length m mod 64) mod 64) 0 @ length_bytes (8 * length m)"

fun chunks :: "nat \<Rightarrow> nat \<Rightarrow> 'a list \<Rightarrow> 'a list list" where
  "chunks 0 n xs = []"
| "chunks (Suc k) n xs = take n xs # chunks k n (drop n xs)"

text \<open>
  The message schedule, most recent word first: from the 16 words of a block, 48 further
  words, each the sum of \<open>sigma1\<close> of the word 2 back, the word 7 back, \<open>sigma0\<close> of the
  word 15 back and the word 16 back.
\<close>

fun extend_schedule :: "nat \<Rightarrow> w32 list \<Rightarrow> w32 list" where
  "extend_schedule 0 ws = ws"
| "extend_schedule (Suc k) ws =
     extend_schedule k
       (add32 (add32 (add32 (sigma1 (ws ! 1)) (ws ! 6)) (sigma0 (ws ! 14))) (ws ! 15) # ws)"

definition schedule :: "byte list \<Rightarrow> w32 list" where
  "schedule block = rev (extend_schedule 48 (rev (map be_word (chunks 16 4 block))))"

text \<open>One round on the working variables \<open>a, \<dots>, h\<close>, and the compression of a block.\<close>

fun round256 :: "w32 list \<Rightarrow> w32 \<times> w32 \<Rightarrow> w32 list" where
  "round256 [a, b, c, d, e, f, g, h] (k, w) =
     (let t1 = add32 (add32 (add32 (add32 h (Sigma1 e)) (Ch e f g)) k) w;
          t2 = add32 (Sigma0 a) (Maj a b c)
      in [add32 t1 t2, a, b, c, add32 d t1, e, f, g])"
| "round256 s kw = s"

definition compress :: "w32 list \<Rightarrow> byte list \<Rightarrow> w32 list" where
  "compress hs block = map2 add32 hs (foldl round256 hs (zip K256 (schedule block)))"

definition sha256 :: "byte list \<Rightarrow> byte list" where
  "sha256 m =
     concat (map word_bytes
       (foldl compress H256 (chunks (length (pad m) div 64) 64 (pad m))))"

text \<open>
  HMAC: a key longer than the block is hashed first, the key is filled with zeros to the
  block size, and the digest is the hash of the key xor \<open>opad\<close> followed by the hash of the key xor
  \<open>ipad\<close> followed by the message.
\<close>

definition hmac_sha256 :: "byte list \<Rightarrow> byte list \<Rightarrow> byte list" where
  "hmac_sha256 key msg =
     (let k0 = (if length key > 64 then sha256 key else key);
          k = k0 @ replicate (64 - length k0) 0;
          inner = sha256 (map (\<lambda>b. b XOR 0x36) k @ msg)
      in sha256 (map (\<lambda>b. b XOR 0x5c) k @ inner))"

text \<open>\<^verbatim>\<open>hexdigest()\<close>: two lower-case hexadecimal digits for each byte.\<close>

definition hex_digit :: "nat \<Rightarrow> char" where
  "hex_digit d = ''0123456789abcdef'' ! (d mod 16)"

definition hexdigest :: "byte list \<Rightarrow> string" where
  "hexdigest bs = concat (map (\<lambda>b. [hex_digit (b div 16), hex_digit b]) bs)"

text \<open>
  \<^verbatim>\<open>str.encode()\<close>: UTF-8. A code point below 128 is one byte, one from 128 to 255 two.
\<close>

definition encode :: "string \<Rightarrow> byte list" where
  "encode s =
     concat (map (\<lambda>c. let n = (of_char c :: nat) in
                        if n < 128 then [n]
                        else [192 + n div 64, 128 + n mod 64]) s)"

subsection \<open>WebhookEndpoint.generate\_signature\<close>

text \<open>
  \<^verbatim>\<open>
  def generate_signature(self, payload):
      import hmac
      import hashlib
      return hmac.new(
          self.secret_key.encode(),
          payload.encode(),
          hashlib.sha256
      ).hexdigest()
  \<close>
\<close>

record WebhookEndpoint =
  secret_key :: string

definition generate_signature :: "WebhookEndpoint \<Rightarrow> string \<Rightarrow> string" where
  "generate_signature self payload =
     hexdigest (hmac_sha256 (encode (secret_key self)) (encode payload))"

section \<open>Concrete inputs\<close>

text \<open>
  The tenants, requests, rows and documents at which the theorems below are evaluated.
\<close>

subsection \<open>A tenant at its user limit and requests that create a user\<close>

text \<open>
  The URL configuration mounts \<^verbatim>\<open>accounts.urls\<close> at the root and
  \<^verbatim>\<open>accounts.api_urls\<close> at \<^verbatim>\<open>api/auth/\<close>, so users are created by a post to
  \<^verbatim>\<open>/users/create/\<close> (the form) or to \<^verbatim>\<open>/api/auth/users/\<close> (the API).
  \<open>prefixed_post\<close> has a path with the prefix \<^verbatim>\<open>/api/users/\<close> that the middleware
  tests; no route has it.
\<close>

definition full_tenant :: Tenant where
  "full_tenant =
     \<lparr>schema_name = ''acme'', subscription_status = ''active'', trial_end_date = None,
      max_users = 5, max_leads = 500, max_storage_mb = 5120,
      current_users = 5, current_leads = 0, current_storage_mb = 0,
      enabled_features = Map.empty\<rparr>"

definition create_user_form_post :: request where
  "create_user_form_post =
     \<lparr>path = ''/users/create/'', request_method = ''POST'', FILES = [],
      tenant = Some full_tenant, user = Some 1, HTTP_X_FORWARDED_FOR = None,
      REMOTE_ADDR = Some ''10.0.0.1''\<rparr>"

definition create_user_api_post :: request where
  "create_user_api_post = create_user_form_post\<lparr>path := ''/api/auth/users/''\<rparr>"

definition prefixed_post :: request where
  "prefixed_post = create_user_form_post\<lparr>path := ''/api/users/''\<rparr>"

subsection \<open>A trial tenant without an end date\<close>

text \<open>
  \<open>trial_end_date\<close> is a nullable column (\<^verbatim>\<open>null=True, blank=True\<close>), and
  \<^verbatim>\<open>TenantAdmin.extend_trial\<close> tests it for \<^verbatim>\<open>None\<close> on trial tenants before using
  it. The tenant below has the defaults of the model and no trial end date.
\<close>

definition null_trial_tenant :: Tenant where
  "null_trial_tenant =
     \<lparr>schema_name = ''acme'', subscription_status = ''trial'', trial_end_date = None,
      max_users = 5, max_leads = 500, max_storage_mb = 5120,
      current_users = 0, current_leads = 0, current_storage_mb = 0,
      enabled_features = Map.empty\<rparr>"

definition dashboard_get :: request where
  "dashboard_get =
     \<lparr>path = ''/dashboard/'', request_method = ''GET'', FILES = [],
      tenant = Some null_trial_tenant, user = Some 1, HTTP_X_FORWARDED_FOR = None,
      REMOTE_ADDR = Some ''10.0.0.1''\<rparr>"

subsection \<open>A concrete anonymous login request\<close>

definition anonymous_login :: request where
  "anonymous_login =
     \<lparr>path = ''/api/auth/login/'', request_method = ''POST'', FILES = [],
      tenant = None, user = None, HTTP_X_FORWARDED_FOR = None,
      REMOTE_ADDR = Some ''203.0.113.7''\<rparr>"

subsection \<open>A concrete lead\<close>

definition qualified_lead :: Lead where
  "qualified_lead =
     \<lparr>lead_id = 7, lead_first_name = ''Asha'', lead_last_name = ''Rao'',
      lead_email = ''asha@example.com'', lead_phone = ''+91-98'', lead_secondary_phone = [],
      lead_company_name = ''Acme'', lead_job_title = ''CTO'', lead_industry = ''Retail'',
      lead_status = ''qualified'', lead_source = ''website'', lead_assigned_to = Some 3,
      lead_address = ''1 Main Road'', lead_city = ''Pune'', lead_state = ''MH'',
      lead_country = ''India'', lead_postal_code = ''411001'',
      lead_converted_to_customer = None, lead_converted_date = None, lead_updated_at = 10\<rparr>"

definition one_lead_db :: sales_db where
  "one_lead_db = \<lparr>customers = [], leads = [qualified_lead]\<rparr>"

subsection \<open>The invoice of the specification's example\<close>

text \<open>
  A draft invoice with a percentage discount of 0 and nothing paid, and its two line items
  before they are saved: quantity 2 at 100 with 10\% discount and 18\% tax, and quantity 1
  at 50 with no discount and 18\% tax.
\<close>

definition example_invoice :: Invoice where
  "example_invoice =
     \<lparr>inv_id = 1, inv_invoice_number = ''INV-001001'', inv_customer = 5, inv_deal = None,
      inv_quotation = None, inv_invoice_date = 20000, inv_due_date = 20030,
      inv_status = ''draft'', inv_subtotal = 0, inv_discount_type = ''percentage'',
      inv_discount_value = 0, inv_discount_amount = 0, inv_tax_amount = 0,
      inv_total_amount = 0, inv_amount_paid = 0, inv_amount_due = 0, inv_currency = ''INR'',
      inv_payment_terms = [], inv_notes = [], inv_billing_address = ''1 Main Road'',
      inv_billing_city = ''Pune'', inv_billing_state = ''MH'', inv_billing_country = ''India'',
      inv_billing_postal_code = ''411001'', inv_created_by = Some 1, inv_created_at = 0\<rparr>"

definition example_item1 :: InvoiceItem where
  "example_item1 =
     \<lparr>ii_id = None, ii_invoice = 1, ii_product = None, ii_description = ''Widget'',
      ii_quantity = 2, ii_unit_price = 100, ii_discount_percentage = 10,
      ii_discount_amount = 0, ii_tax_rate = 18, ii_tax_amount = 0, ii_total = 0,
      ii_order = 0\<rparr>"

definition example_item2 :: InvoiceItem where
  "example_item2 =
     \<lparr>ii_id = None, ii_invoice = 1, ii_product = None, ii_description = ''Gadget'',
      ii_quantity = 1, ii_unit_price = 50, ii_discount_percentage = 0,
      ii_discount_amount = 0, ii_tax_rate = 18, ii_tax_amount = 0, ii_total = 0,
      ii_order = 1\<rparr>"

definition example_db :: billing_db where
  "example_db =
     \<lparr>invoices = [example_invoice], invoice_items = [], quotation_items = [], payments = []\<rparr>"

text \<open>The tables after both items are saved, and the saved items.\<close>

definition example_db_saved :: billing_db where
  "example_db_saved =
     fst (InvoiceItem_save (fst (InvoiceItem_save example_db example_item1)) example_item2)"

definition saved_item1 :: InvoiceItem where
  "saved_item1 = snd (InvoiceItem_save example_db example_item1)"

definition saved_item2 :: InvoiceItem where
  "saved_item2 =
     snd (InvoiceItem_save (fst (InvoiceItem_save example_db example_item1)) example_item2)"

subsection \<open>A payment against the example invoice\<close>

text \<open>
  The example invoice with its totals computed and stored, and a cash payment of 100
  created against it the way a view or a serializer creates one.
\<close>

definition billed_invoice :: Invoice where
  "billed_invoice = Invoice_calculate_totals example_db_saved 20000 example_invoice"

definition billed_db :: billing_db where
  "billed_db = fst (Invoice_save example_db_saved 0 billed_invoice)"

definition first_payment :: "billing_db \<times> Payment" where
  "first_payment =
     Payment_objects_create billed_db 1728000000000000 ''PAY-20241004-3F9A1C'' 77
       billed_invoice 100 20000 ''cash''"

subsection \<open>An accepted quotation\<close>






section \<open>Properties of price list items\<close>

text \<open>
  Claim C10. When \<open>fixed_price\<close> is exactly 0, \<open>get_price\<close> never takes the
  fixed-price branch: at or above the minimum quantity it returns the discounted base price
  when \<open>discount_percentage\<close> is set and non-zero, and the base price otherwise; it
  returns \<^verbatim>\<open>None\<close> exactly when the quantity is below the minimum.
\<close>

theorem get_price_zero_fixed_price:
  assumes "fixed_price self = Some 0"
  shows "get_price self quantity =
           (if quantity < min_quantity self then None
            else case discount_percentage self of
                   None \<Rightarrow> Some (base_price (product self))
                 | Some d \<Rightarrow>
                     if d \<noteq> 0 then Some (base_price (product self) * (1 - d / 100))
                     else Some (base_price (product self)))
         \<and> (get_price self quantity = None \<longleftrightarrow> quantity < min_quantity self)"
  using assms
  by (auto simp: get_price_def decimal_truthy_def split: option.splits)

theorem get_price_zero_fixed_price_witness:
  "fixed_price \<lparr>product = \<lparr>base_price = 200\<rparr>, fixed_price = Some 0,
       discount_percentage = Some 10, min_quantity = 5\<rparr> = Some 0
   \<and> get_price \<lparr>product = \<lparr>base_price = 200\<rparr>, fixed_price = Some 0,
       discount_percentage = Some 10, min_quantity = 5\<rparr> 5 = Some 180
   \<and> get_price \<lparr>product = \<lparr>base_price = 200\<rparr>, fixed_price = Some 0,
       discount_percentage = Some 10, min_quantity = 5\<rparr> 4 = None"
  using get_price_zero_fixed_price [of "\<lparr>product = \<lparr>base_price = 200\<rparr>, fixed_price = Some 0,
       discount_percentage = Some 10, min_quantity = 5\<rparr>"]
  by (simp add: get_price_def decimal_truthy_def)

section \<open>Properties of the role permissions\<close>

lemma get_permissions_manager:
  "role u = ''manager'' \<Longrightarrow>
   get_permissions u =
     [(''users'', [''read'']),
      (''leads'', [''create'', ''read'', ''update'', ''delete'', ''assign'']),
      (''customers'', [''create'', ''read'', ''update'', ''delete'']),
      (''deals'', [''create'', ''read'', ''update'', ''delete'']),
      (''products'', [''read'']),
      (''invoices'', [''create'', ''read'', ''update'', ''send'']),
      (''reports'', [''view'', ''export'']),
      (''settings'', [''view''])]"
  by (simp add: get_permissions_def permissions_def)

text \<open>
  Claim C3, as the code has it. For every user whose role is manager,
  \<open>get_permissions\<close> grants: users \<open>{read}\<close>; leads, customers and deals create, read,
  update, delete (leads also assign); products \<open>{read}\<close>; invoices create, read,
  \<^emph>\<open>update\<close> and send (no delete); reports view and export; settings view; and it has
  no \<open>billing\<close> key.
\<close>

theorem manager_permissions:
  assumes "role u = ''manager''"
  shows "granted u ''users'' = {''read''}
       \<and> granted u ''leads'' = {''create'', ''read'', ''update'', ''delete'', ''assign''}
       \<and> granted u ''customers'' = {''create'', ''read'', ''update'', ''delete''}
       \<and> granted u ''deals'' = {''create'', ''read'', ''update'', ''delete''}
       \<and> granted u ''products'' = {''read''}
       \<and> granted u ''invoices'' = {''create'', ''read'', ''update'', ''send''}
       \<and> granted u ''reports'' = {''view'', ''export''}
       \<and> granted u ''settings'' = {''view''}
       \<and> map_of (get_permissions u) ''billing'' = None
       \<and> map fst (get_permissions u) =
           [''users'', ''leads'', ''customers'', ''deals'', ''products'', ''invoices'',
            ''reports'', ''settings'']"
  by (simp add: granted_def get_permissions_manager [OF assms])

theorem manager_permissions_witness:
  "role \<lparr>role = ''manager''\<rparr> = ''manager''
   \<and> granted \<lparr>role = ''manager''\<rparr> ''invoices'' = {''create'', ''read'', ''update'', ''send''}
   \<and> map_of (get_permissions \<lparr>role = ''manager''\<rparr>) ''billing'' = None"
  using manager_permissions [of "\<lparr>role = ''manager''\<rparr>"]
  by simp

text \<open>
  The claim as the specification states it gives a manager create, read, delete and send on
  invoices. The code grants update and withholds delete.
\<close>

theorem manager_invoices_counterexample:
  "granted \<lparr>role = ''manager''\<rparr> ''invoices'' \<noteq> {''create'', ''read'', ''delete'', ''send''}
   \<and> ''update'' \<in> granted \<lparr>role = ''manager''\<rparr> ''invoices''
   \<and> ''delete'' \<notin> granted \<lparr>role = ''manager''\<rparr> ''invoices''"
proof -
  have g: "granted \<lparr>role = ''manager''\<rparr> ''invoices'' = {''create'', ''read'', ''update'', ''send''}"
    by (simp add: granted_def get_permissions_manager)
  have yes: "''update'' \<in> granted \<lparr>role = ''manager''\<rparr> ''invoices''"
    unfolding g by simp
  have no: "''delete'' \<notin> granted \<lparr>role = ''manager''\<rparr> ''invoices''"
    unfolding g by simp
  have "''delete'' \<in> {''create'', ''read'', ''delete'', ''send''}"
    by simp
  with no have "granted \<lparr>role = ''manager''\<rparr> ''invoices'' \<noteq> {''create'', ''read'', ''delete'', ''send''}"
    by metis
  with yes no show ?thesis
    by (intro conjI)
qed

section \<open>Properties of the subscription middleware\<close>

lemma can_add_users_iff:
  "can_add_users tn \<longleftrightarrow> max_users tn = -1 \<or> current_users tn < max_users tn"
  by (simp add: can_add_users_def)

text \<open>The limit handler raises on every request, before it builds a response.\<close>

lemma handle_limit_exceeded_raises:
  "handle_limit_exceeded req resource_type v = Inl AttributeError"
  by (simp add: handle_limit_exceeded_def request_is_ajax_def)

text \<open>With \<open>max_users = -1\<close> the user check never fires, whatever \<open>current_users\<close> is.\<close>

lemma unlimited_users_pass_user_check:
  assumes "max_users tn = -1"
  shows "check_resource_limits req tn = check_lead_limit req tn"
  using assms by (simp add: check_resource_limits_def can_add_users_def)

lemma SubscriptionMiddleware_process_request_post:
  assumes "tenant req = Some tn" "schema_name tn \<noteq> public_schema"
    and "\<forall>e \<in> set EXEMPT_URLS. \<not> startswith (path req) e"
    and "subscription_status tn \<noteq> ''cancelled''" "subscription_status tn \<noteq> ''past_due''"
    and "is_trial_expired tn now = Inr False" "request_method req = ''POST''"
  shows "SubscriptionMiddleware_process_request public_schema req now = check_resource_limits req tn"
  using assms by (simp add: SubscriptionMiddleware_process_request_def)

text \<open>
  Claim C7 says that a post to a user-creation path of a tenant that cannot add users is
  rejected with a \<open>LIMIT_EXCEEDED\<close> response naming \<open>users\<close> and \<open>max_users\<close>.
  \<open>can_add_users\<close> is as the claim states it (\<open>can_add_users_iff\<close>), and the tenant
  \<open>full_tenant\<close>, with 5 of 5 users, cannot add one. The middleware tests the prefixes
  \<^verbatim>\<open>/accounts/users/create/\<close> and \<^verbatim>\<open>/api/users/\<close>; the posts that create a user go to
  \<^verbatim>\<open>/users/create/\<close> and \<^verbatim>\<open>/api/auth/users/\<close>, match neither prefix, and pass
  \<open>check_resource_limits\<close> and the whole middleware with no response. A post to a path
  that has the tested prefix reaches the limit handler, which raises
  \<^verbatim>\<open>AttributeError\<close> instead of returning a response.
\<close>

theorem user_creation_passes_unchecked:
  "\<not> can_add_users full_tenant
   \<and> request_method create_user_api_post = ''POST''
   \<and> check_resource_limits create_user_api_post full_tenant = Inr ([], None)
   \<and> SubscriptionMiddleware_process_request ''public'' create_user_api_post now = Inr ([], None)
   \<and> check_resource_limits create_user_form_post full_tenant = Inr ([], None)
   \<and> SubscriptionMiddleware_process_request ''public'' create_user_form_post now = Inr ([], None)
   \<and> check_resource_limits prefixed_post full_tenant = Inl AttributeError
   \<and> SubscriptionMiddleware_process_request ''public'' prefixed_post now = Inl AttributeError"
proof -
  have c: "\<not> can_add_users full_tenant"
    by (simp add: full_tenant_def can_add_users_def)
  have paths: "path create_user_form_post = ''/users/create/''"
    "path create_user_api_post = ''/api/auth/users/''" "path prefixed_post = ''/api/users/''"
    by (simp_all add: create_user_form_post_def create_user_api_post_def prefixed_post_def)
  have files: "FILES create_user_form_post = []" "FILES create_user_api_post = []"
    by (simp_all add: create_user_form_post_def create_user_api_post_def)
  have m: "request_method create_user_form_post = ''POST''"
    "request_method create_user_api_post = ''POST''" "request_method prefixed_post = ''POST''"
    by (simp_all add: create_user_form_post_def create_user_api_post_def prefixed_post_def)
  have t: "tenant create_user_form_post = Some full_tenant"
    "tenant create_user_api_post = Some full_tenant" "tenant prefixed_post = Some full_tenant"
    by (simp_all add: create_user_form_post_def create_user_api_post_def prefixed_post_def)
  have api: "check_resource_limits create_user_api_post full_tenant = Inr ([], None)"
    by (simp add: check_resource_limits_def check_lead_limit_def check_storage_limit_def
        paths files startswith_def)
  have form: "check_resource_limits create_user_form_post full_tenant = Inr ([], None)"
    by (simp add: check_resource_limits_def check_lead_limit_def check_storage_limit_def
        paths files startswith_def)
  have pre: "check_resource_limits prefixed_post full_tenant = Inl AttributeError"
    using c by (simp add: check_resource_limits_def paths startswith_def
        handle_limit_exceeded_raises)
  have e: "\<forall>e \<in> set EXEMPT_URLS. \<not> startswith (path create_user_form_post) e"
    "\<forall>e \<in> set EXEMPT_URLS. \<not> startswith (path create_user_api_post) e"
    "\<forall>e \<in> set EXEMPT_URLS. \<not> startswith (path prefixed_post) e"
    by (simp_all add: EXEMPT_URLS_def paths startswith_def)
  have x: "is_trial_expired full_tenant now = Inr False" "schema_name full_tenant \<noteq> ''public''"
    "subscription_status full_tenant \<noteq> ''cancelled''"
    "subscription_status full_tenant \<noteq> ''past_due''"
    by (simp_all add: is_trial_expired_def full_tenant_def)
  have api': "SubscriptionMiddleware_process_request ''public'' create_user_api_post now = Inr ([], None)"
    using SubscriptionMiddleware_process_request_post [OF t(2) x(2) e(2) x(3) x(4) x(1) m(2)]
    by (simp add: api)
  have form': "SubscriptionMiddleware_process_request ''public'' create_user_form_post now = Inr ([], None)"
    using SubscriptionMiddleware_process_request_post [OF t(1) x(2) e(1) x(3) x(4) x(1) m(1)]
    by (simp add: form)
  have pre': "SubscriptionMiddleware_process_request ''public'' prefixed_post now = Inl AttributeError"
    using SubscriptionMiddleware_process_request_post [OF t(3) x(2) e(3) x(3) x(4) x(1) m(3)]
    by (simp add: pre)
  from c m(2) api api' form form' pre pre' show ?thesis
    by (intro conjI)
qed

section \<open>The derived properties on a tenant without a trial end date\<close>

text \<open>
  Where the status is not \<open>trial\<close>, or the end date is set, both trial properties return
  a Boolean; the other four properties are total functions of the tenant.
\<close>

lemma trial_properties_return:
  assumes "subscription_status t \<noteq> ''trial'' \<or> trial_end_date t \<noteq> None"
  shows "\<exists>a b. is_on_trial t now = Inr a \<and> is_trial_expired t now = Inr b"
  using assms by (auto simp: is_on_trial_def is_trial_expired_def split: option.splits)

text \<open>
  Claim C4 says that each derived property returns a value on every tenant, a tenant with
  no \<open>trial_end_date\<close> included. On a tenant in status \<open>trial\<close> with no end date,
  \<open>is_on_trial\<close> and \<open>is_trial_expired\<close> raise \<^verbatim>\<open>TypeError\<close>, and so does the
  subscription middleware on every request of that tenant that reaches the trial check; the
  other four properties return.
\<close>

theorem trial_properties_raise_without_end_date:
  "is_on_trial null_trial_tenant now = Inl TypeError
   \<and> is_trial_expired null_trial_tenant now = Inl TypeError
   \<and> SubscriptionMiddleware_process_request ''public'' dashboard_get now = Inl TypeError
   \<and> can_add_users null_trial_tenant
   \<and> can_add_leads null_trial_tenant
   \<and> storage_usage_percentage null_trial_tenant = 0
   \<and> has_feature null_trial_tenant ''reports'' = JBool False"
proof -
  have e: "\<not> (\<exists>e \<in> set EXEMPT_URLS. startswith (path dashboard_get) e)"
    by (simp add: EXEMPT_URLS_def dashboard_get_def startswith_def)
  have x: "is_trial_expired null_trial_tenant now = Inl TypeError"
    by (simp add: is_trial_expired_def null_trial_tenant_def)
  have "tenant dashboard_get = Some null_trial_tenant"
    by (simp add: dashboard_get_def)
  moreover have "schema_name null_trial_tenant \<noteq> ''public''"
    "subscription_status null_trial_tenant = ''trial''"
    by (simp_all add: null_trial_tenant_def)
  ultimately have m: "SubscriptionMiddleware_process_request ''public'' dashboard_get now = Inl TypeError"
    unfolding SubscriptionMiddleware_process_request_def using e x by simp
  have y: "is_on_trial null_trial_tenant now = Inl TypeError"
    by (simp add: is_on_trial_def null_trial_tenant_def)
  have r: "can_add_users null_trial_tenant" "can_add_leads null_trial_tenant"
    "storage_usage_percentage null_trial_tenant = 0"
    "has_feature null_trial_tenant ''reports'' = JBool False"
    by (simp_all add: can_add_users_def can_add_leads_def storage_usage_percentage_def
        has_feature_def null_trial_tenant_def)
  from x y m r show ?thesis
    by (intro conjI)
qed

section \<open>Properties of the rate limiter\<close>

lemma login_rate:
  "startswith p ''api/auth/login'' \<Longrightarrow> find_rate_limit p rates = Some (5, 300)"
  by (simp add: rates_def)

lemma window_upd: "window (cache(k \<mapsto> ts)) k = ts"
  by (simp add: window_def)

text \<open>One login request when every recorded attempt is inside the window.\<close>

lemma login_step_inside:
  assumes "startswith (strip_slashes (path req)) ''api/auth/login''"
    and "\<forall>t \<in> set (window cache (cache_key req)). now - t < 300"
  shows "RateLimitMiddleware_process_request cache req now =
           (if 5 \<le> length (window cache (cache_key req))
            then (cache(cache_key req \<mapsto> window cache (cache_key req)),
                  Some (HttpResponseForbidden ''Rate limit exceeded. Please try again later.''))
            else (cache(cache_key req \<mapsto> window cache (cache_key req) @ [now]), None))"
proof -
  have "filter (\<lambda>t. now - t < 300) (window cache (cache_key req)) = window cache (cache_key req)"
    using assms(2) by (simp add: filter_id_conv)
  then show ?thesis
    by (simp add: RateLimitMiddleware_process_request_def login_rate [OF assms(1)])
qed

text \<open>One login request when every recorded attempt is 300 seconds old or older.\<close>

lemma login_step_expired:
  assumes "startswith (strip_slashes (path req)) ''api/auth/login''"
    and "\<forall>t \<in> set (window cache (cache_key req)). 300 \<le> now - t"
  shows "RateLimitMiddleware_process_request cache req now =
           (cache(cache_key req \<mapsto> [now]), None)"
proof -
  have "filter (\<lambda>t. now - t < 300) (window cache (cache_key req)) = []"
    using assms(2) by (auto simp: filter_empty_conv)
  then show ?thesis
    by (simp add: RateLimitMiddleware_process_request_def login_rate [OF assms(1)])
qed

text \<open>
  A request that is answered with a response (a denial) adds no timestamp to any window:
  the window of its key keeps the entries still inside the window, the others are untouched.
\<close>

lemma rejected_request_adds_no_entry:
  assumes "RateLimitMiddleware_process_request cache req now = (cache', Some r)"
  shows "set (window cache' k) \<subseteq> set (window cache k)"
proof (cases "find_rate_limit (strip_slashes (path req)) rates")
  case None
  with assms show ?thesis
    by (simp add: RateLimitMiddleware_process_request_def)
next
  case (Some limit)
  obtain max_requests win where limit: "limit = (max_requests, win)"
    by (cases limit)
  let ?kept = "filter (\<lambda>timestamp. now - timestamp < of_nat win) (window cache (cache_key req))"
  from assms Some limit have "cache' = cache(cache_key req \<mapsto> ?kept)"
    by (simp add: RateLimitMiddleware_process_request_def Let_def split: if_splits)
  then have "window cache' k = (if k = cache_key req then ?kept else window cache k)"
    by (simp add: window_def)
  then show ?thesis
    by auto
qed

text \<open>
  Claim C8. Take an anonymous client, whose cache key is the stripped path followed by
  \<open>:ip:\<close> and its address, and a login path. Let every attempt recorded for the key be
  300 seconds old or older at \<open>t1\<close> (none recorded is one such case), let six login
  requests arrive at \<open>t1 \<le> \<dots> \<le> t6\<close> with \<open>t6 - t1 < 300\<close>, and a seventh at a time
  \<open>t7\<close> when all recorded attempts are 300 seconds old or older. Then the first five are
  let through, the sixth is answered with the Forbidden response and leaves the cache as the
  fifth left it, with the window \<open>[t1, \<dots>, t5]\<close>, and the seventh is let through again.
\<close>

theorem login_rate_limit:
  assumes login: "startswith (strip_slashes (path req)) ''api/auth/login''"
    and anonymous: "user req = None"
    and fresh: "\<forall>t \<in> set (window cache (cache_key req)). 300 \<le> t1 - t"
    and order: "t1 \<le> t2" "t2 \<le> t3" "t3 \<le> t4" "t4 \<le> t5" "t5 \<le> t6"
    and within: "t6 - t1 < 300"
    and later: "300 \<le> t7 - t5"
  shows "cache_key req = strip_slashes (path req) @ '':ip:'' @ client_ip req
       \<and> run_requests cache (map (Pair req) [t1, t2, t3, t4, t5]) =
           (cache(cache_key req \<mapsto> [t1, t2, t3, t4, t5]), [None, None, None, None, None])
       \<and> run_requests cache (map (Pair req) [t1, t2, t3, t4, t5, t6]) =
           (cache(cache_key req \<mapsto> [t1, t2, t3, t4, t5]),
            [None, None, None, None, None,
             Some (HttpResponseForbidden ''Rate limit exceeded. Please try again later.'')])
       \<and> run_requests cache (map (Pair req) [t1, t2, t3, t4, t5, t6, t7]) =
           (cache(cache_key req \<mapsto> [t7]),
            [None, None, None, None, None,
             Some (HttpResponseForbidden ''Rate limit exceeded. Please try again later.''),
             None])"
proof -
  let ?k = "cache_key req"
  let ?P = "RateLimitMiddleware_process_request"
  let ?F = "Some (HttpResponseForbidden ''Rate limit exceeded. Please try again later.'')"
  have key: "?k = strip_slashes (path req) @ '':ip:'' @ client_ip req"
    by (simp add: cache_key_def get_client_id_def anonymous)
  have s1: "?P cache req t1 = (cache(?k \<mapsto> [t1]), None)"
    by (rule login_step_expired [OF login fresh])
  have s2: "?P (cache(?k \<mapsto> [t1])) req t2 = (cache(?k \<mapsto> [t1, t2]), None)"
    using order within by (subst login_step_inside [OF login]) (simp_all add: window_upd)
  have s3: "?P (cache(?k \<mapsto> [t1, t2])) req t3 = (cache(?k \<mapsto> [t1, t2, t3]), None)"
    using order within by (subst login_step_inside [OF login]) (simp_all add: window_upd)
  have s4: "?P (cache(?k \<mapsto> [t1, t2, t3])) req t4 = (cache(?k \<mapsto> [t1, t2, t3, t4]), None)"
    using order within by (subst login_step_inside [OF login]) (simp_all add: window_upd)
  have s5: "?P (cache(?k \<mapsto> [t1, t2, t3, t4])) req t5 =
              (cache(?k \<mapsto> [t1, t2, t3, t4, t5]), None)"
    using order within by (subst login_step_inside [OF login]) (simp_all add: window_upd)
  have s6: "?P (cache(?k \<mapsto> [t1, t2, t3, t4, t5])) req t6 =
              (cache(?k \<mapsto> [t1, t2, t3, t4, t5]), ?F)"
    using order within by (subst login_step_inside [OF login]) (simp_all add: window_upd)
  have s7: "?P (cache(?k \<mapsto> [t1, t2, t3, t4, t5])) req t7 = (cache(?k \<mapsto> [t7]), None)"
    using order later by (subst login_step_expired [OF login]) (simp_all add: window_upd)
  have r5: "run_requests cache (map (Pair req) [t1, t2, t3, t4, t5]) =
           (cache(?k \<mapsto> [t1, t2, t3, t4, t5]), [None, None, None, None, None])"
    by (simp add: s1 s2 s3 s4 s5)
  have r6: "run_requests cache (map (Pair req) [t1, t2, t3, t4, t5, t6]) =
           (cache(?k \<mapsto> [t1, t2, t3, t4, t5]), [None, None, None, None, None, ?F])"
    by (simp add: s1 s2 s3 s4 s5 s6)
  have r7: "run_requests cache (map (Pair req) [t1, t2, t3, t4, t5, t6, t7]) =
           (cache(?k \<mapsto> [t7]), [None, None, None, None, None, ?F, None])"
    by (simp add: s1 s2 s3 s4 s5 s6 s7)
  from key r5 r6 r7 show ?thesis
    by (intro conjI)
qed

lemma anonymous_login_key: "cache_key anonymous_login = ''api/auth/login:ip:203.0.113.7''"
  by (simp add: cache_key_def get_client_id_def client_ip_def strip_slashes_def
      anonymous_login_def)

theorem login_rate_limit_witness:
  "run_requests Map.empty (map (Pair anonymous_login) [0, 60, 120, 180, 240, 299, 540]) =
     ([''api/auth/login:ip:203.0.113.7'' \<mapsto> [540]],
      [None, None, None, None, None,
       Some (HttpResponseForbidden ''Rate limit exceeded. Please try again later.''),
       None])
   \<and> run_requests Map.empty (map (Pair anonymous_login) [0, 60, 120, 180, 240, 299]) =
     ([''api/auth/login:ip:203.0.113.7'' \<mapsto> [0, 60, 120, 180, 240]],
      [None, None, None, None, None,
       Some (HttpResponseForbidden ''Rate limit exceeded. Please try again later.'')])"
proof -
  have login: "startswith (strip_slashes (path anonymous_login)) ''api/auth/login''"
    by (simp add: strip_slashes_def anonymous_login_def startswith_def)
  have anonymous: "user anonymous_login = None"
    by (simp add: anonymous_login_def)
  have fresh: "\<forall>t \<in> set (window Map.empty (cache_key anonymous_login)). 300 \<le> (0::rat) - t"
    by (simp add: window_def)
  show ?thesis
    using login_rate_limit [OF login anonymous fresh, of 60 120 180 240 299 540]
    by (simp add: anonymous_login_key)
qed

section \<open>Properties of the lead conversion\<close>

lemma Customer_save_new:
  assumes "cust_id c \<notin> cust_id ` set table" and "cust_customer_code c = []"
  shows "Customer_save table now c =
           (table @ [c\<lparr>cust_customer_code := next_customer_code table, cust_created_at := now\<rparr>],
            c\<lparr>cust_customer_code := next_customer_code table, cust_created_at := now\<rparr>)"
  using assms by (simp add: Customer_save_def save_row_def Let_def)

text \<open>
  Claim C5. Let \<open>new_id\<close>, the key drawn for the new customer, be none of the keys in
  the customer table. Converting a lead whose status is \<open>converted\<close> raises
  \<^verbatim>\<open>ValueError\<close>, and with it returns no new table and no changed lead. Converting any
  other lead appends exactly one customer to the table, whose name, contact, company and
  address fields are the lead's, and the lead that is stored and returned differs from the
  given one in exactly: \<open>status = converted\<close>, \<open>converted_to_customer\<close> the key of
  the new customer, \<open>converted_date\<close> the time of the call, and the \<open>updated_at\<close> stamp
  of its save.
\<close>

theorem lead_conversion:
  assumes fresh: "new_id \<notin> cust_id ` set (customers db)"
  shows "(lead_status self = ''converted'' \<longrightarrow>
            convert_to_customer db now new_id self usr = Inl ValueError)
       \<and> (lead_status self \<noteq> ''converted'' \<longrightarrow>
            (\<exists>db' self' customer.
               convert_to_customer db now new_id self usr = Inr (db', self', customer)
             \<and> customers db' = customers db @ [customer]
             \<and> cust_id customer = new_id
             \<and> cust_first_name customer = lead_first_name self
             \<and> cust_last_name customer = lead_last_name self
             \<and> cust_email customer = lead_email self
             \<and> cust_phone customer = lead_phone self
             \<and> cust_secondary_phone customer = lead_secondary_phone self
             \<and> cust_company_name customer = lead_company_name self
             \<and> cust_job_title customer = lead_job_title self
             \<and> cust_industry customer = lead_industry self
             \<and> cust_billing_address customer = lead_address self
             \<and> cust_billing_city customer = lead_city self
             \<and> cust_billing_state customer = lead_state self
             \<and> cust_billing_country customer = lead_country self
             \<and> cust_billing_postal_code customer = lead_postal_code self
             \<and> cust_lead_source customer = lead_source self
             \<and> cust_assigned_to customer = lead_assigned_to self
             \<and> cust_created_by customer = usr
             \<and> self' = self\<lparr>lead_converted_to_customer := Some new_id,
                               lead_converted_date := Some now,
                               lead_status := ''converted'',
                               lead_updated_at := now\<rparr>
             \<and> leads db' = save_row lead_id self' (leads db)))"
proof (intro conjI impI)
  assume "lead_status self = ''converted''"
  then show "convert_to_customer db now new_id self usr = Inl ValueError"
    by (simp add: convert_to_customer_def)
next
  assume open_lead: "lead_status self \<noteq> ''converted''"
  let ?fresh_customer = "new_customer_of_lead new_id self usr"
  let ?cust = "?fresh_customer\<lparr>cust_customer_code := next_customer_code (customers db), cust_created_at := now\<rparr>"
  let ?lead = "self\<lparr>lead_converted_to_customer := Some new_id, lead_converted_date := Some now,
                 lead_status := ''converted'', lead_updated_at := now\<rparr>"
  have c0: "cust_id ?fresh_customer = new_id" "cust_customer_code ?fresh_customer = []"
    by (simp_all add: new_customer_of_lead_def)
  have save: "Customer_save (customers db) now ?fresh_customer = (customers db @ [?cust], ?cust)"
    using fresh by (simp add: Customer_save_new c0)
  have run: "convert_to_customer db now new_id self usr =
          Inr (\<lparr>customers = customers db @ [?cust], leads = save_row lead_id ?lead (leads db)\<rparr>, ?lead, ?cust)"
    using open_lead
    by (simp add: convert_to_customer_def save Lead_save_def Let_def c0)
  have fields: "cust_id ?cust = new_id"
    "cust_first_name ?cust = lead_first_name self" "cust_last_name ?cust = lead_last_name self"
    "cust_email ?cust = lead_email self" "cust_phone ?cust = lead_phone self"
    "cust_secondary_phone ?cust = lead_secondary_phone self"
    "cust_company_name ?cust = lead_company_name self" "cust_job_title ?cust = lead_job_title self"
    "cust_industry ?cust = lead_industry self" "cust_billing_address ?cust = lead_address self"
    "cust_billing_city ?cust = lead_city self" "cust_billing_state ?cust = lead_state self"
    "cust_billing_country ?cust = lead_country self"
    "cust_billing_postal_code ?cust = lead_postal_code self"
    "cust_lead_source ?cust = lead_source self" "cust_assigned_to ?cust = lead_assigned_to self"
    "cust_created_by ?cust = usr"
    by (simp_all add: new_customer_of_lead_def)
  show "\<exists>db' self' customer.
               convert_to_customer db now new_id self usr = Inr (db', self', customer)
             \<and> customers db' = customers db @ [customer]
             \<and> cust_id customer = new_id
             \<and> cust_first_name customer = lead_first_name self
             \<and> cust_last_name customer = lead_last_name self
             \<and> cust_email customer = lead_email self
             \<and> cust_phone customer = lead_phone self
             \<and> cust_secondary_phone customer = lead_secondary_phone self
             \<and> cust_company_name customer = lead_company_name self
             \<and> cust_job_title customer = lead_job_title self
             \<and> cust_industry customer = lead_industry self
             \<and> cust_billing_address customer = lead_address self
             \<and> cust_billing_city customer = lead_city self
             \<and> cust_billing_state customer = lead_state self
             \<and> cust_billing_country customer = lead_country self
             \<and> cust_billing_postal_code customer = lead_postal_code self
             \<and> cust_lead_source customer = lead_source self
             \<and> cust_assigned_to customer = lead_assigned_to self
             \<and> cust_created_by customer = usr
             \<and> self' = self\<lparr>lead_converted_to_customer := Some new_id,
                               lead_converted_date := Some now,
                               lead_status := ''converted'',
                               lead_updated_at := now\<rparr>
             \<and> leads db' = save_row lead_id self' (leads db)"
    apply (rule exI [where x = "\<lparr>customers = customers db @ [?cust], leads = save_row lead_id ?lead (leads db)\<rparr>"])
    apply (rule exI [where x = ?lead])
    apply (rule exI [where x = ?cust])
    apply (simp only: run fields)
    apply simp
    done
qed

text \<open>
  The first conversion of a lead succeeds and stores the converted lead; converting the
  stored lead again raises and returns nothing new.
\<close>

theorem lead_conversion_witness:
  "42 \<notin> cust_id ` set (customers one_lead_db)
   \<and> (\<exists>db' self' customer.
        convert_to_customer one_lead_db 1000 42 qualified_lead (Some 1) = Inr (db', self', customer)
      \<and> length (customers db') = 1
      \<and> cust_customer_code customer = ''CUST-00001''
      \<and> cust_email customer = ''asha@example.com''
      \<and> lead_status self' = ''converted''
      \<and> leads db' = [self']
      \<and> convert_to_customer db' 2000 43 self' (Some 1) = Inl ValueError)"
proof -
  have fresh: "42 \<notin> cust_id ` set (customers one_lead_db)"
    by (simp add: one_lead_db_def)
  have st: "lead_status qualified_lead \<noteq> ''converted''"
    by (simp add: qualified_lead_def)
  from lead_conversion [OF fresh, of qualified_lead 1000 "Some 1"] st
  obtain db' self' customer where
    r: "convert_to_customer one_lead_db 1000 42 qualified_lead (Some 1) = Inr (db', self', customer)"
    and c: "customers db' = customers one_lead_db @ [customer]"
    and e: "cust_email customer = lead_email qualified_lead"
    and s: "self' = qualified_lead\<lparr>lead_converted_to_customer := Some 42,
                               lead_converted_date := Some 1000,
                               lead_status := ''converted'',
                               lead_updated_at := 1000\<rparr>"
    and l: "leads db' = save_row lead_id self' (leads one_lead_db)"
    by blast
  have code: "cust_customer_code customer = ''CUST-00001''"
    using r by (simp add: convert_to_customer_def st Customer_save_def save_row_def Let_def
        next_customer_code_def one_lead_db_def new_customer_of_lead_def Lead_save_def) auto
  have again: "convert_to_customer db' 2000 43 self' (Some 1) = Inl ValueError"
    using lead_conversion [of 43 db' self' 2000 "Some 1"] s
    by (simp add: convert_to_customer_def)
  have "leads db' = [self']"
    using l s by (simp add: save_row_def one_lead_db_def)
  with fresh r c e code again s show ?thesis
    by (auto simp: one_lead_db_def qualified_lead_def)
qed

section \<open>The totals of the example invoice\<close>

lemma saved_item1_eq:
  "saved_item1 = example_item1\<lparr>ii_id := Some 1, ii_discount_amount := 20,
                                ii_tax_amount := 162 / 5, ii_total := 1062 / 5\<rparr>"
  by (simp add: saved_item1_def InvoiceItem_save_def InvoiceItem_amounts_def example_item1_def
      example_db_def next_id_def Let_def)

lemma saved_item2_eq:
  "saved_item2 = example_item2\<lparr>ii_id := Some 2, ii_discount_amount := 0,
                                ii_tax_amount := 9, ii_total := 59\<rparr>"
  by (simp add: saved_item2_def InvoiceItem_save_def InvoiceItem_amounts_def example_item1_def
      example_item2_def example_db_def next_id_def save_row_def row_key_def Let_def)

lemma example_db_saved_items:
  "invoice_items example_db_saved = [saved_item1, saved_item2]"
  unfolding saved_item1_eq saved_item2_eq
  by (simp add: example_db_saved_def InvoiceItem_save_def InvoiceItem_amounts_def
      example_item1_def example_item2_def example_db_def next_id_def save_row_def row_key_def
      Let_def)

lemma example_invoice_items:
  "Invoice_items example_db_saved example_invoice = [saved_item1, saved_item2]"
  unfolding Invoice_items_def example_db_saved_items
  by (simp add: saved_item1_eq saved_item2_eq example_item1_def example_item2_def
      example_invoice_def row_key_def)

lemma example_invoice_fields:
  "inv_discount_type example_invoice = ''percentage''" "inv_discount_value example_invoice = 0"
  "inv_amount_paid example_invoice = 0" "inv_status example_invoice = ''draft''"
  by (simp_all add: example_invoice_def)

text \<open>
  Claim C2 expects, after both items are saved, subtotal 250 and total amount 271.4. The
  items are recomputed on save as the claim says (discount 20, taxable 180, tax 32.4, total
  212.4; discount 0, taxable 50, tax 9, total 59). \<open>calculate_totals\<close> then takes the sum
  of the item totals, which already contain the tax, as subtotal (271.4) and adds the item
  taxes (41.4) once more: the total amount is 312.8.
\<close>

theorem example_totals_count_tax_twice:
  "ii_discount_amount saved_item1 = 20
   \<and> ii_tax_amount saved_item1 = 324 / 10
   \<and> ii_total saved_item1 = 2124 / 10
   \<and> ii_discount_amount saved_item2 = 0
   \<and> ii_tax_amount saved_item2 = 9
   \<and> ii_total saved_item2 = 59
   \<and> inv_subtotal (Invoice_calculate_totals example_db_saved today example_invoice) = 2714 / 10
   \<and> inv_discount_amount (Invoice_calculate_totals example_db_saved today example_invoice) = 0
   \<and> inv_tax_amount (Invoice_calculate_totals example_db_saved today example_invoice) = 414 / 10
   \<and> inv_total_amount (Invoice_calculate_totals example_db_saved today example_invoice) = 3128 / 10
   \<and> inv_subtotal (Invoice_calculate_totals example_db_saved today example_invoice) \<noteq> 250
   \<and> inv_total_amount (Invoice_calculate_totals example_db_saved today example_invoice) \<noteq> 2714 / 10"
proof -
  have items: "ii_discount_amount saved_item1 = 20" "ii_tax_amount saved_item1 = 324 / 10"
    "ii_total saved_item1 = 2124 / 10" "ii_discount_amount saved_item2 = 0"
    "ii_tax_amount saved_item2 = 9" "ii_total saved_item2 = 59"
    by (simp_all add: saved_item1_eq saved_item2_eq)
  have sub: "inv_subtotal (Invoice_calculate_totals example_db_saved today example_invoice) = 2714 / 10"
    by (simp add: Invoice_calculate_totals_def example_invoice_items Let_def items)
  have disc: "inv_discount_amount (Invoice_calculate_totals example_db_saved today example_invoice) = 0"
    by (simp add: Invoice_calculate_totals_def example_invoice_items Let_def items
        example_invoice_fields)
  have tax: "inv_tax_amount (Invoice_calculate_totals example_db_saved today example_invoice) = 414 / 10"
    by (simp add: Invoice_calculate_totals_def example_invoice_items Let_def items)
  have tot: "inv_total_amount (Invoice_calculate_totals example_db_saved today example_invoice) = 3128 / 10"
    by (simp add: Invoice_calculate_totals_def example_invoice_items Let_def items
        example_invoice_fields)
  have ne: "inv_subtotal (Invoice_calculate_totals example_db_saved today example_invoice) \<noteq> 250"
    "inv_total_amount (Invoice_calculate_totals example_db_saved today example_invoice) \<noteq> 2714 / 10"
    unfolding sub tot by simp_all
  from items sub disc tax tot ne show ?thesis
    by (intro conjI)
qed

section \<open>Payments and the invoice's amount paid\<close>

text \<open>
  What the increment does when it runs: on an instance whose key is \<^verbatim>\<open>None\<close> the
  related invoice gets the amount added, its totals recomputed, and is saved.
\<close>

lemma Payment_save_without_key:
  assumes "pay_id p = None"
  shows "inv_amount_paid (pay_invoice (snd (Payment_save db now number new_id p))) =
           inv_amount_paid (pay_invoice p) + pay_amount p"
  using assms
  by (simp add: Payment_save_def Let_def Invoice_save_def Invoice_calculate_totals_def
      split: prod.splits)

text \<open>Saving a payment that has a key leaves the invoice table and the related invoice alone.\<close>

lemma Payment_save_with_key:
  assumes "pay_id p = Some k"
  shows "invoices (fst (Payment_save db now number new_id p)) = invoices db"
    and "pay_invoice (snd (Payment_save db now number new_id p)) = pay_invoice p"
  using assms by (simp_all add: Payment_save_def Let_def)

lemma billed_invoice_amounts:
  "inv_total_amount billed_invoice = 3128 / 10" "inv_amount_paid billed_invoice = 0"
  "inv_amount_due billed_invoice = 3128 / 10" "inv_status billed_invoice = ''draft''"
  "inv_id billed_invoice = 1"
proof -
  have sums: "sum_list (map ii_total (Invoice_items example_db_saved example_invoice)) = 2714 / 10"
    "sum_list (map ii_tax_amount (Invoice_items example_db_saved example_invoice)) = 414 / 10"
    by (simp_all add: example_invoice_items saved_item1_eq saved_item2_eq)
  have over: "\<not> is_overdue example_invoice 20000"
    by (simp add: is_overdue_def example_invoice_def)
  show "inv_total_amount billed_invoice = 3128 / 10" "inv_amount_paid billed_invoice = 0"
    "inv_amount_due billed_invoice = 3128 / 10" "inv_status billed_invoice = ''draft''"
    "inv_id billed_invoice = 1"
    by (simp_all add: billed_invoice_def Invoice_calculate_totals_def Let_def sums over
        example_invoice_fields, simp_all add: example_invoice_def)
qed

lemma billed_db_invoices: "invoices billed_db = [billed_invoice]"
proof -
  have "inv_invoice_number billed_invoice = ''INV-001001''"
    by (simp add: billed_invoice_def Invoice_calculate_totals_def Let_def example_invoice_def)
  moreover have "invoices example_db_saved = [example_invoice]"
    by (simp add: example_db_saved_def InvoiceItem_save_def Let_def example_db_def)
  moreover have "inv_id example_invoice = 1"
    by (simp add: example_invoice_def)
  ultimately show ?thesis
    by (simp add: billed_db_def Invoice_save_def Let_def save_row_def billed_invoice_amounts)
qed

text \<open>
  Claim C1 says that the first save of every payment adds the payment's amount to the
  invoice's \<open>amount_paid\<close>, recomputes the totals and saves the invoice. A payment that is
  constructed and saved, as \<^verbatim>\<open>Payment.objects.create\<close> does, has its key from the
  constructor, so \<open>is_new\<close> is false at its first save: the payment row is stored, the
  invoice table and the related invoice are as before. For the payment of 100 against the
  example invoice, \<open>amount_paid\<close> stays 0, the amount due 312.8 and the status
  \<open>draft\<close>.
\<close>

theorem payment_creation_leaves_invoice_unpaid:
  "invoices (fst (Payment_objects_create db now number default_id invoice amount d m)) = invoices db
   \<and> pay_invoice (snd (Payment_objects_create db now number default_id invoice amount d m)) = invoice
   \<and> payments (fst (Payment_objects_create db now number default_id invoice amount d m)) =
       save_row pay_id (snd (Payment_objects_create db now number default_id invoice amount d m))
         (payments db)
   \<and> invoices (fst first_payment) = [billed_invoice]
   \<and> length (payments (fst first_payment)) = 1
   \<and> pay_amount (snd first_payment) = 100
   \<and> inv_amount_paid (pay_invoice (snd first_payment)) = 0
   \<and> inv_amount_paid (hd (invoices (fst first_payment))) = 0
   \<and> inv_amount_due (hd (invoices (fst first_payment))) = 3128 / 10
   \<and> inv_status (hd (invoices (fst first_payment))) = ''draft''"
proof -
  let ?r = "Payment_objects_create db now number default_id invoice amount d m"
  have key: "pay_id (Payment_init default_id invoice amount d m) = Some default_id"
    and inv: "pay_invoice (Payment_init default_id invoice amount d m) = invoice"
    by (simp_all add: Payment_init_def)
  have a: "invoices (fst ?r) = invoices db"
    unfolding Payment_objects_create_def by (rule Payment_save_with_key(1) [OF key])
  have b: "pay_invoice (snd ?r) = invoice"
    unfolding Payment_objects_create_def by (simp add: Payment_save_with_key(2) [OF key] inv)
  have c: "payments (fst ?r) = save_row pay_id (snd ?r) (payments db)"
    by (simp add: Payment_objects_create_def Payment_save_def Payment_init_def Let_def)
  have key1: "pay_id (Payment_init 77 billed_invoice 100 20000 ''cash'') = Some 77"
    by (simp add: Payment_init_def)
  have e: "invoices (fst first_payment) = [billed_invoice]"
    unfolding first_payment_def Payment_objects_create_def
    by (simp add: Payment_save_with_key(1) [OF key1] billed_db_invoices)
  have "pay_invoice (Payment_init 77 billed_invoice 100 20000 ''cash'') = billed_invoice"
    by (simp add: Payment_init_def)
  then have f: "pay_invoice (snd first_payment) = billed_invoice"
    unfolding first_payment_def Payment_objects_create_def
    by (simp add: Payment_save_with_key(2) [OF key1])
  have "payments billed_db = []"
    by (simp add: billed_db_def Invoice_save_def Let_def example_db_saved_def
        InvoiceItem_save_def example_db_def)
  then have g: "length (payments (fst first_payment)) = 1"
    by (simp add: first_payment_def Payment_objects_create_def Payment_save_def
        Payment_init_def Let_def save_row_def)
  have h: "pay_amount (snd first_payment) = 100"
    by (simp add: first_payment_def Payment_objects_create_def Payment_save_def
        Payment_init_def Let_def)
  from a b c e g h show ?thesis
    by (simp add: f billed_invoice_amounts)
qed

section \<open>Converting a quotation to an invoice\<close>

subsection \<open>Keys, rows and sums\<close>






subsection \<open>Saving line items and invoices\<close>

lemma InvoiceItem_amounts_id [simp]: "ii_id (InvoiceItem_amounts x) = ii_id x"
  by (simp add: InvoiceItem_amounts_def Let_def)








subsection \<open>The conversion\<close>











section \<open>Properties of the webhook signature\<close>

subsection \<open>Evaluation on numerals\<close>

lemma extend_schedule_numeral:
  "extend_schedule (numeral k) ws =
     extend_schedule (pred_numeral k)
       (add32 (add32 (add32 (sigma1 (ws ! 1)) (ws ! 6)) (sigma0 (ws ! 14))) (ws ! 15) # ws)"
  by (simp add: numeral_eq_Suc)

lemma chunks_numeral:
  "chunks (numeral k) n xs = take n xs # chunks (pred_numeral k) n (drop n xs)"
  by (simp add: numeral_eq_Suc)

lemma replicate_numeral_unfold:
  "replicate (numeral k) x = x # replicate (pred_numeral k) x"
  by (simp add: numeral_eq_Suc)

subsection \<open>A worked signature\<close>

text \<open>
  The secret \<open>Jefe\<close> and the payload \<open>what do ya want for nothing?\<close> are test case 2
  of RFC 4231, which gives the HMAC-SHA-256 value
  \<open>5bdcc146bf60754e6a042426089575c75a003f089d2739839dec58b964ec3843\<close>. The lemmas below
  compute it with the definitions above, one block at a time: the two blocks of the key,
  then the block of the payload and the block of the inner digest; and the same for the
  payload whose last byte is changed to an exclamation mark.
\<close>

lemmas compress_eval =
  compress_def schedule_def extend_schedule_numeral chunks_numeral
  Sigma0_def Sigma1_def sigma0_def sigma1_def Ch_def Maj_def rotr_def shr_def add32_def
  not32_def K256_def Let_def

lemma jefe_inner_key_state:
  "compress H256
     [124, 83, 80, 83, 54, 54, 54, 54, 54, 54, 54, 54, 54, 54, 54, 54,
     54, 54, 54, 54, 54, 54, 54, 54, 54, 54, 54, 54, 54, 54, 54, 54,
     54, 54, 54, 54, 54, 54, 54, 54, 54, 54, 54, 54, 54, 54, 54, 54,
     54, 54, 54, 54, 54, 54, 54, 54, 54, 54, 54, 54, 54, 54, 54, 54] =
   [1700636666, 3426962231, 1511839179, 110292494, 2759467987, 1278932041, 3684834018, 2026328076]"
  by (simp add: compress_eval H256_def)

lemma jefe_outer_key_state:
  "compress H256
     [22, 57, 58, 57, 92, 92, 92, 92, 92, 92, 92, 92, 92, 92, 92, 92,
     92, 92, 92, 92, 92, 92, 92, 92, 92, 92, 92, 92, 92, 92, 92, 92,
     92, 92, 92, 92, 92, 92, 92, 92, 92, 92, 92, 92, 92, 92, 92, 92,
     92, 92, 92, 92, 92, 92, 92, 92, 92, 92, 92, 92, 92, 92, 92, 92] =
   [246408149, 323038828, 1785343979, 758602444, 1369767239, 1840289256, 599761290, 1391542741]"
  by (simp add: compress_eval H256_def)

lemma inner_state_question:
  "compress [1700636666, 3426962231, 1511839179, 110292494, 2759467987, 1278932041, 3684834018, 2026328076]
     [119, 104, 97, 116, 32, 100, 111, 32, 121, 97, 32, 119, 97, 110, 116, 32,
     102, 111, 114, 32, 110, 111, 116, 104, 105, 110, 103, 63, 128, 0, 0, 0,
     0, 0, 0, 0, 0, 0, 0, 0, 0, 0, 0, 0, 0, 0, 0, 0,
     0, 0, 0, 0, 0, 0, 0, 0, 0, 0, 0, 0, 0, 0, 2, 224] =
   [2732885382, 1026030040, 1689030016, 607298029, 1199410252, 1865719062, 3571968279, 3324627671]"
  by (simp add: compress_eval)

lemma outer_state_question:
  "compress [246408149, 323038828, 1785343979, 758602444, 1369767239, 1840289256, 599761290, 1391542741]
     [162, 228, 133, 134, 61, 39, 249, 216, 100, 172, 141, 128, 36, 50, 161, 237,
     71, 125, 140, 76, 111, 52, 157, 22, 212, 231, 233, 23, 198, 41, 202, 215,
     128, 0, 0, 0, 0, 0, 0, 0, 0, 0, 0, 0, 0, 0, 0, 0,
     0, 0, 0, 0, 0, 0, 0, 0, 0, 0, 0, 0, 0, 0, 3, 0] =
   [1541194054, 3210769742, 1778656294, 144012743, 1509965576, 2636593539, 2649512121, 1693202499]"
  by (simp add: compress_eval)

lemma inner_state_exclaim:
  "compress [1700636666, 3426962231, 1511839179, 110292494, 2759467987, 1278932041, 3684834018, 2026328076]
     [119, 104, 97, 116, 32, 100, 111, 32, 121, 97, 32, 119, 97, 110, 116, 32,
     102, 111, 114, 32, 110, 111, 116, 104, 105, 110, 103, 33, 128, 0, 0, 0,
     0, 0, 0, 0, 0, 0, 0, 0, 0, 0, 0, 0, 0, 0, 0, 0,
     0, 0, 0, 0, 0, 0, 0, 0, 0, 0, 0, 0, 0, 0, 2, 224] =
   [3509401145, 574226279, 4182018774, 1745036780, 2026700648, 1157921528, 2531017607, 4123750298]"
  by (simp add: compress_eval)

lemma outer_state_exclaim:
  "compress [246408149, 323038828, 1785343979, 758602444, 1369767239, 1840289256, 599761290, 1391542741]
     [209, 45, 54, 57, 34, 57, 255, 103, 249, 68, 138, 214, 104, 3, 37, 236,
     120, 204, 255, 104, 69, 4, 122, 248, 150, 220, 67, 135, 245, 203, 111, 154,
     128, 0, 0, 0, 0, 0, 0, 0, 0, 0, 0, 0, 0, 0, 0, 0,
     0, 0, 0, 0, 0, 0, 0, 0, 0, 0, 0, 0, 0, 0, 3, 0] =
   [3018028370, 1083488163, 4246473644, 3712753458, 2017717911, 778507848, 835935080, 1905054386]"
  by (simp add: compress_eval)

lemma hmac_jefe_question:
  "hmac_sha256 (encode ''Jefe'') (encode ''what do ya want for nothing?'') =
     [91, 220, 193, 70, 191, 96, 117, 78, 106, 4, 36, 38, 8, 149, 117, 199,
     90, 0, 63, 8, 157, 39, 57, 131, 157, 236, 88, 185, 100, 236, 56, 67]"
proof -
  let ?ki = "[124, 83, 80, 83, 54, 54, 54, 54, 54, 54, 54, 54, 54, 54, 54, 54,
             54, 54, 54, 54, 54, 54, 54, 54, 54, 54, 54, 54, 54, 54, 54, 54,
             54, 54, 54, 54, 54, 54, 54, 54, 54, 54, 54, 54, 54, 54, 54, 54,
             54, 54, 54, 54, 54, 54, 54, 54, 54, 54, 54, 54, 54, 54, 54, 54]"
  let ?ko = "[22, 57, 58, 57, 92, 92, 92, 92, 92, 92, 92, 92, 92, 92, 92, 92,
             92, 92, 92, 92, 92, 92, 92, 92, 92, 92, 92, 92, 92, 92, 92, 92,
             92, 92, 92, 92, 92, 92, 92, 92, 92, 92, 92, 92, 92, 92, 92, 92,
             92, 92, 92, 92, 92, 92, 92, 92, 92, 92, 92, 92, 92, 92, 92, 92]"
  let ?b2 = "[119, 104, 97, 116, 32, 100, 111, 32, 121, 97, 32, 119, 97, 110, 116, 32,
             102, 111, 114, 32, 110, 111, 116, 104, 105, 110, 103, 63, 128, 0, 0, 0,
             0, 0, 0, 0, 0, 0, 0, 0, 0, 0, 0, 0, 0, 0, 0, 0,
             0, 0, 0, 0, 0, 0, 0, 0, 0, 0, 0, 0, 0, 0, 2, 224]"
  let ?b3 = "[162, 228, 133, 134, 61, 39, 249, 216, 100, 172, 141, 128, 36, 50, 161, 237,
             71, 125, 140, 76, 111, 52, 157, 22, 212, 231, 233, 23, 198, 41, 202, 215,
             128, 0, 0, 0, 0, 0, 0, 0, 0, 0, 0, 0, 0, 0, 0, 0,
             0, 0, 0, 0, 0, 0, 0, 0, 0, 0, 0, 0, 0, 0, 3, 0]"
  let ?inner = "[162, 228, 133, 134, 61, 39, 249, 216, 100, 172, 141, 128, 36, 50, 161, 237,
                71, 125, 140, 76, 111, 52, 157, 22, 212, 231, 233, 23, 198, 41, 202, 215]"
  have key: "encode ''Jefe'' @ replicate (64 - length (encode ''Jefe'')) 0 =
      [74, 101, 102, 101, 0, 0, 0, 0, 0, 0, 0, 0, 0, 0, 0, 0,
       0, 0, 0, 0, 0, 0, 0, 0, 0, 0, 0, 0, 0, 0, 0, 0,
       0, 0, 0, 0, 0, 0, 0, 0, 0, 0, 0, 0, 0, 0, 0, 0,
       0, 0, 0, 0, 0, 0, 0, 0, 0, 0, 0, 0, 0, 0, 0, 0]"
    by (simp add: encode_def replicate_numeral_unfold)
  have msg: "encode ''what do ya want for nothing?'' =
      [119, 104, 97, 116, 32, 100, 111, 32, 121, 97, 32, 119, 97, 110, 116, 32,
       102, 111, 114, 32, 110, 111, 116, 104, 105, 110, 103, 63]"
    by (simp add: encode_def)
  have short: "\<not> length (encode ''Jefe'') > 64"
    by (simp add: encode_def)
  have blocks_in: "chunks (length (pad (?ki @ encode ''what do ya want for nothing?'')) div 64) 64
      (pad (?ki @ encode ''what do ya want for nothing?'')) = [?ki, ?b2]"
    unfolding msg by (simp add: pad_def length_bytes_def chunks_numeral replicate_numeral_unfold)
  have inner: "sha256 (?ki @ encode ''what do ya want for nothing?'') = ?inner"
    unfolding sha256_def blocks_in
    by (simp only: foldl.simps jefe_inner_key_state inner_state_question)
       (simp add: word_bytes_def)
  have blocks_out: "chunks (length (pad (?ko @ ?inner)) div 64) 64 (pad (?ko @ ?inner)) =
      [?ko, ?b3]"
    by (simp add: pad_def length_bytes_def chunks_numeral replicate_numeral_unfold)
  have outer: "sha256 (?ko @ ?inner) =
      [91, 220, 193, 70, 191, 96, 117, 78, 106, 4, 36, 38, 8, 149, 117, 199,
       90, 0, 63, 8, 157, 39, 57, 131, 157, 236, 88, 185, 100, 236, 56, 67]"
    unfolding sha256_def blocks_out
    by (simp only: foldl.simps jefe_outer_key_state outer_state_question)
       (simp add: word_bytes_def)
  have ki: "map (\<lambda>b. b XOR 0x36) (encode ''Jefe'' @ replicate (64 - length (encode ''Jefe'')) 0) = ?ki"
    unfolding key by simp
  have ko: "map (\<lambda>b. b XOR 0x5c) (encode ''Jefe'' @ replicate (64 - length (encode ''Jefe'')) 0) = ?ko"
    unfolding key by simp
  show ?thesis
    unfolding hmac_sha256_def Let_def if_not_P [OF short] ki ko inner outer ..
qed

lemma hmac_jefe_exclaim:
  "hmac_sha256 (encode ''Jefe'') (encode ''what do ya want for nothing!'') =
     [179, 227, 117, 82, 64, 148, 183, 163, 253, 28, 11, 172, 221, 76, 31, 50,
     120, 67, 238, 151, 46, 103, 22, 72, 49, 211, 91, 104, 113, 140, 210, 178]"
proof -
  let ?ki = "[124, 83, 80, 83, 54, 54, 54, 54, 54, 54, 54, 54, 54, 54, 54, 54,
             54, 54, 54, 54, 54, 54, 54, 54, 54, 54, 54, 54, 54, 54, 54, 54,
             54, 54, 54, 54, 54, 54, 54, 54, 54, 54, 54, 54, 54, 54, 54, 54,
             54, 54, 54, 54, 54, 54, 54, 54, 54, 54, 54, 54, 54, 54, 54, 54]"
  let ?ko = "[22, 57, 58, 57, 92, 92, 92, 92, 92, 92, 92, 92, 92, 92, 92, 92,
             92, 92, 92, 92, 92, 92, 92, 92, 92, 92, 92, 92, 92, 92, 92, 92,
             92, 92, 92, 92, 92, 92, 92, 92, 92, 92, 92, 92, 92, 92, 92, 92,
             92, 92, 92, 92, 92, 92, 92, 92, 92, 92, 92, 92, 92, 92, 92, 92]"
  let ?b2 = "[119, 104, 97, 116, 32, 100, 111, 32, 121, 97, 32, 119, 97, 110, 116, 32,
             102, 111, 114, 32, 110, 111, 116, 104, 105, 110, 103, 33, 128, 0, 0, 0,
             0, 0, 0, 0, 0, 0, 0, 0, 0, 0, 0, 0, 0, 0, 0, 0,
             0, 0, 0, 0, 0, 0, 0, 0, 0, 0, 0, 0, 0, 0, 2, 224]"
  let ?b3 = "[209, 45, 54, 57, 34, 57, 255, 103, 249, 68, 138, 214, 104, 3, 37, 236,
             120, 204, 255, 104, 69, 4, 122, 248, 150, 220, 67, 135, 245, 203, 111, 154,
             128, 0, 0, 0, 0, 0, 0, 0, 0, 0, 0, 0, 0, 0, 0, 0,
             0, 0, 0, 0, 0, 0, 0, 0, 0, 0, 0, 0, 0, 0, 3, 0]"
  let ?inner = "[209, 45, 54, 57, 34, 57, 255, 103, 249, 68, 138, 214, 104, 3, 37, 236,
                120, 204, 255, 104, 69, 4, 122, 248, 150, 220, 67, 135, 245, 203, 111, 154]"
  have key: "encode ''Jefe'' @ replicate (64 - length (encode ''Jefe'')) 0 =
      [74, 101, 102, 101, 0, 0, 0, 0, 0, 0, 0, 0, 0, 0, 0, 0,
       0, 0, 0, 0, 0, 0, 0, 0, 0, 0, 0, 0, 0, 0, 0, 0,
       0, 0, 0, 0, 0, 0, 0, 0, 0, 0, 0, 0, 0, 0, 0, 0,
       0, 0, 0, 0, 0, 0, 0, 0, 0, 0, 0, 0, 0, 0, 0, 0]"
    by (simp add: encode_def replicate_numeral_unfold)
  have msg: "encode ''what do ya want for nothing!'' =
      [119, 104, 97, 116, 32, 100, 111, 32, 121, 97, 32, 119, 97, 110, 116, 32,
       102, 111, 114, 32, 110, 111, 116, 104, 105, 110, 103, 33]"
    by (simp add: encode_def)
  have short: "\<not> length (encode ''Jefe'') > 64"
    by (simp add: encode_def)
  have blocks_in: "chunks (length (pad (?ki @ encode ''what do ya want for nothing!'')) div 64) 64
      (pad (?ki @ encode ''what do ya want for nothing!'')) = [?ki, ?b2]"
    unfolding msg by (simp add: pad_def length_bytes_def chunks_numeral replicate_numeral_unfold)
  have inner: "sha256 (?ki @ encode ''what do ya want for nothing!'') = ?inner"
    unfolding sha256_def blocks_in
    by (simp only: foldl.simps jefe_inner_key_state inner_state_exclaim)
       (simp add: word_bytes_def)
  have blocks_out: "chunks (length (pad (?ko @ ?inner)) div 64) 64 (pad (?ko @ ?inner)) =
      [?ko, ?b3]"
    by (simp add: pad_def length_bytes_def chunks_numeral replicate_numeral_unfold)
  have outer: "sha256 (?ko @ ?inner) =
      [179, 227, 117, 82, 64, 148, 183, 163, 253, 28, 11, 172, 221, 76, 31, 50,
       120, 67, 238, 151, 46, 103, 22, 72, 49, 211, 91, 104, 113, 140, 210, 178]"
    unfolding sha256_def blocks_out
    by (simp only: foldl.simps jefe_outer_key_state outer_state_exclaim)
       (simp add: word_bytes_def)
  have ki: "map (\<lambda>b. b XOR 0x36) (encode ''Jefe'' @ replicate (64 - length (encode ''Jefe'')) 0) = ?ki"
    unfolding key by simp
  have ko: "map (\<lambda>b. b XOR 0x5c) (encode ''Jefe'' @ replicate (64 - length (encode ''Jefe'')) 0) = ?ko"
    unfolding key by simp
  show ?thesis
    unfolding hmac_sha256_def Let_def if_not_P [OF short] ki ko inner outer ..
qed

lemma signature_question:
  "generate_signature \<lparr>secret_key = ''Jefe''\<rparr> ''what do ya want for nothing?'' =
     ''5bdcc146bf60754e6a042426089575c75a003f089d2739839dec58b964ec3843''"
  by (simp add: generate_signature_def hmac_jefe_question hexdigest_def hex_digit_def)

lemma signature_exclaim:
  "generate_signature \<lparr>secret_key = ''Jefe''\<rparr> ''what do ya want for nothing!'' =
     ''b3e375524094b7a3fd1c0bacdd4c1f327843ee972e67164831d35b68718cd2b2''"
  by (simp add: generate_signature_def hmac_jefe_exclaim hexdigest_def hex_digit_def)

subsection \<open>The signature\<close>

text \<open>
  Claim C9. \<open>generate_signature\<close> is the hex-encoded HMAC-SHA256 of the encoded payload
  under the encoded secret, a function of the secret and the payload alone: two calls with
  the same secret and the same payload give the same digest. For the secret \<open>Jefe\<close> the
  payload \<open>what do ya want for nothing?\<close> has the signature that RFC 4231 lists, and
  changing its last byte changes the signature.
\<close>

theorem generate_signature_is_hmac_sha256:
  "generate_signature self payload =
     hexdigest (hmac_sha256 (encode (secret_key self)) (encode payload))
   \<and> (secret_key other = secret_key self \<and> payload' = payload \<longrightarrow>
        generate_signature other payload' = generate_signature self payload)
   \<and> generate_signature \<lparr>secret_key = ''Jefe''\<rparr> ''what do ya want for nothing?'' =
       ''5bdcc146bf60754e6a042426089575c75a003f089d2739839dec58b964ec3843''
   \<and> generate_signature \<lparr>secret_key = ''Jefe''\<rparr> ''what do ya want for nothing!'' =
       ''b3e375524094b7a3fd1c0bacdd4c1f327843ee972e67164831d35b68718cd2b2''
   \<and> generate_signature \<lparr>secret_key = ''Jefe''\<rparr> ''what do ya want for nothing?'' \<noteq>
       generate_signature \<lparr>secret_key = ''Jefe''\<rparr> ''what do ya want for nothing!''"
proof (intro conjI impI)
  show "generate_signature self payload =
     hexdigest (hmac_sha256 (encode (secret_key self)) (encode payload))"
    by (simp add: generate_signature_def)
next
  assume "secret_key other = secret_key self \<and> payload' = payload"
  then show "generate_signature other payload' = generate_signature self payload"
    by (simp add: generate_signature_def)
next
  show "generate_signature \<lparr>secret_key = ''Jefe''\<rparr> ''what do ya want for nothing?'' =
       ''5bdcc146bf60754e6a042426089575c75a003f089d2739839dec58b964ec3843''"
    by (rule signature_question)
next
  show "generate_signature \<lparr>secret_key = ''Jefe''\<rparr> ''what do ya want for nothing!'' =
       ''b3e375524094b7a3fd1c0bacdd4c1f327843ee972e67164831d35b68718cd2b2''"
    by (rule signature_exclaim)
next
  show "generate_signature \<lparr>secret_key = ''Jefe''\<rparr> ''what do ya want for nothing?'' \<noteq>
       generate_signature \<lparr>secret_key = ''Jefe''\<rparr> ''what do ya want for nothing!''"
    unfolding signature_question signature_exclaim by simp
qed

theorem generate_signature_is_hmac_sha256_witness:
  "secret_key \<lparr>secret_key = ''Jefe''\<rparr> = ''Jefe''
   \<and> generate_signature \<lparr>secret_key = ''Jefe''\<rparr> ''what do ya want for nothing?'' =
       hexdigest (hmac_sha256 (encode ''Jefe'') (encode ''what do ya want for nothing?''))
   \<and> hexdigest (hmac_sha256 (encode ''Jefe'') (encode ''what do ya want for nothing?'')) =
       ''5bdcc146bf60754e6a042426089575c75a003f089d2739839dec58b964ec3843''"
proof -
  note t = generate_signature_is_hmac_sha256
    [of "\<lparr>secret_key = ''Jefe''\<rparr>" "''what do ya want for nothing?''"
        "\<lparr>secret_key = ''Jefe''\<rparr>" "''what do ya want for nothing?''"]
  have k: "secret_key \<lparr>secret_key = ''Jefe''\<rparr> = ''Jefe''"
    by simp
  have a: "generate_signature \<lparr>secret_key = ''Jefe''\<rparr> ''what do ya want for nothing?'' =
       hexdigest (hmac_sha256 (encode ''Jefe'') (encode ''what do ya want for nothing?''))"
    using t [THEN conjunct1] unfolding k .
  have b: "generate_signature \<lparr>secret_key = ''Jefe''\<rparr> ''what do ya want for nothing?'' =
       ''5bdcc146bf60754e6a042426089575c75a003f089d2739839dec58b964ec3843''"
    using t [THEN conjunct2, THEN conjunct2, THEN conjunct1] .
  have c: "hexdigest (hmac_sha256 (encode ''Jefe'') (encode ''what do ya want for nothing?'')) =
       ''5bdcc146bf60754e6a042426089575c75a003f089d2739839dec58b964ec3843''"
    using a b by (rule trans [OF sym])
  from k a c show ?thesis
    by (intro conjI)
qed

end
